theory Spec2Isabelle
  imports Complex_Main "HOL-Library.Sublist" "HOL-Library.Char_ord" "HOL-Library.List_Lexorder"
    "HOL-Library.Word"
begin

section \<open>The XP leaderboard component (src/components/XPLeaderboard.tsx)\<close>

text \<open>
  The component keeps a ranked list of students in React state, derives a filtered view
  from it, and refreshes the list from a remote store on three triggers (a button, a
  staleness timer and a debounced change notification). Times are integers, in
  milliseconds since the epoch, as \<open>Date.getTime()\<close> returns them. What belongs to the
  JavaScript engine and not to the component (lower-casing a string, printing a number,
  parsing a date) is a parameter of the functions that use it.
\<close>

subsection \<open>Data\<close>

text \<open>
  A row of the table \<open>student_xp\<close> as the store returns it; only the columns that
  \<open>fetchLeaderboard\<close> reads are kept. \<open>xp\<close> is an integer number, every other column a
  string (\<open>last_updated\<close> is the timestamp in its text form).
\<close>

record student_xp_row =
  row_enrollment_id :: string
  row_full_name :: string
  row_email :: string
  row_cohort_type :: string
  row_cohort_number :: string
  row_xp :: int
  row_last_updated :: string

text \<open>
  Modelled from the spec: the type \<open>LeaderboardEntry\<close> is imported from \<open>@/types\<close>, which
  is not part of the sources; its fields are those that \<open>fetchLeaderboard\<close> writes
  (lines 56-65), typed as section 3 of the specification types them.
\<close>

record LeaderboardEntry =
  rank :: nat
  enrollment_id :: string
  full_name :: string
  email :: string
  cohort_type :: string
  cohort_number :: string
  xp :: int
  last_updated :: string

record FilterOptions =
  cohortType :: string
  cohortNumber :: string

subsection \<open>Ranking: the \<open>map\<close> of \<open>fetchLeaderboard\<close> (lines 56-65)\<close>

text \<open>
  \<open>(data || []).map((entry, index) => ({ rank: index + 1, ... }))\<close>. A \<open>null\<close> data
  is \<open>None\<close>. The rows are taken in the order of the store's answer; the query asks
  the store for \<open>xp\<close> descending, then \<open>last_updated\<close> ascending (lines 45-46).
\<close>

definition formatEntry :: "nat \<times> student_xp_row \<Rightarrow> LeaderboardEntry" where
  "formatEntry p = (case p of (index, entry) \<Rightarrow>
     \<lparr>rank = index + 1,
      enrollment_id = row_enrollment_id entry,
      full_name = row_full_name entry,
      email = row_email entry,
      cohort_type = row_cohort_type entry,
      cohort_number = row_cohort_number entry,
      xp = row_xp entry,
      last_updated = row_last_updated entry\<rparr>)"

definition formattedData :: "student_xp_row list option \<Rightarrow> LeaderboardEntry list" where
  "formattedData data =
     map formatEntry (enumerate 0 (case data of None \<Rightarrow> [] | Some rows \<Rightarrow> rows))"

text \<open>The row an entry was made from: the entry without its rank.\<close>

definition rowOf :: "LeaderboardEntry \<Rightarrow> student_xp_row" where
  "rowOf e =
     \<lparr>row_enrollment_id = enrollment_id e,
      row_full_name = full_name e,
      row_email = email e,
      row_cohort_type = cohort_type e,
      row_cohort_number = cohort_number e,
      row_xp = xp e,
      row_last_updated = last_updated e\<rparr>"

text \<open>
  The order the query requests: \<open>xp\<close> descending, ties by \<open>last_updated\<close> ascending.
  How the store compares two timestamps is the store's business; \<open>le\<close> stands for it.
\<close>

definition requestedOrder ::
  "(string \<Rightarrow> string \<Rightarrow> bool) \<Rightarrow> int \<times> string \<Rightarrow> int \<times> string \<Rightarrow> bool" where
  "requestedOrder le a b = (fst b < fst a \<or> (fst a = fst b \<and> le (snd a) (snd b)))"

definition rowsOrdered :: "(string \<Rightarrow> string \<Rightarrow> bool) \<Rightarrow> student_xp_row list \<Rightarrow> bool" where
  "rowsOrdered le rows =
     sorted_wrt (\<lambda>a b. requestedOrder le (row_xp a, row_last_updated a) (row_xp b, row_last_updated b)) rows"

definition entriesOrdered :: "(string \<Rightarrow> string \<Rightarrow> bool) \<Rightarrow> LeaderboardEntry list \<Rightarrow> bool" where
  "entriesOrdered le es =
     sorted_wrt (\<lambda>a b. requestedOrder le (xp a, last_updated a) (xp b, last_updated b)) es"

subsection \<open>The filtered view: the effect of lines 81-106\<close>

text \<open>
  A field of an entry is a number (\<open>rank\<close>, \<open>xp\<close>) or a string. \<open>String(value)\<close> leaves
  a string as it is and prints a number; \<open>Number_toString\<close> stands for the engine's
  printing of a number, \<open>toLowerCase\<close> for its \<open>String.prototype.toLowerCase\<close>.
\<close>

datatype js_value = Num int | Str string

definition String_js :: "(int \<Rightarrow> string) \<Rightarrow> js_value \<Rightarrow> string" where
  "String_js Number_toString v = (case v of Str s \<Rightarrow> s | Num i \<Rightarrow> Number_toString i)"

text \<open>\<open>Object.values(entry)\<close>: the fields in the order the object literal writes them.\<close>

definition Object_values :: "LeaderboardEntry \<Rightarrow> js_value list" where
  "Object_values e =
     [Num (int (rank e)), Str (enrollment_id e), Str (full_name e), Str (email e),
      Str (cohort_type e), Str (cohort_number e), Num (xp e), Str (last_updated e)]"

text \<open>\<open>s.includes(t)\<close>: \<open>t\<close> occurs in \<open>s\<close> as a contiguous piece.\<close>

definition str_includes :: "string \<Rightarrow> string \<Rightarrow> bool" where
  "str_includes s t = sublist t s"

definition searchMatches ::
  "(string \<Rightarrow> string) \<Rightarrow> (int \<Rightarrow> string) \<Rightarrow> string \<Rightarrow> LeaderboardEntry \<Rightarrow> bool" where
  "searchMatches toLowerCase Number_toString searchTerm entry =
     list_ex (\<lambda>v. str_includes (toLowerCase (String_js Number_toString v)) (toLowerCase searchTerm))
       (Object_values entry)"

text \<open>A string is truthy when it is not empty, so an empty criterion filters nothing.\<close>

definition applyFilters ::
  "(string \<Rightarrow> string) \<Rightarrow> (int \<Rightarrow> string) \<Rightarrow>
   LeaderboardEntry list \<Rightarrow> FilterOptions \<Rightarrow> string \<Rightarrow> LeaderboardEntry list" where
  "applyFilters toLowerCase Number_toString leaderboard fs searchTerm =
     (let filtered = leaderboard;
          filtered = (if cohortType fs \<noteq> []
                      then filter (\<lambda>entry. cohort_type entry = cohortType fs) filtered
                      else filtered);
          filtered = (if cohortNumber fs \<noteq> []
                      then filter (\<lambda>entry. str_includes (cohort_number entry) (cohortNumber fs)) filtered
                      else filtered);
          filtered = (if searchTerm \<noteq> []
                      then filter (searchMatches toLowerCase Number_toString searchTerm) filtered
                      else filtered)
      in filtered)"

text \<open>
  The table body (lines 420-431): one row per entry of the filtered view; the number
  shown in the Rank column, and used for the icon and the style, is \<open>index + 1\<close>.
\<close>

definition displayRows :: "LeaderboardEntry list \<Rightarrow> (nat \<times> LeaderboardEntry) list" where
  "displayRows filteredLeaderboard =
     map (\<lambda>(index, entry). (index + 1, entry)) (enumerate 0 filteredLeaderboard)"

subsection \<open>The view filter in the specification's words (section 4.2)\<close>

text \<open>
  The string form of an integer is its decimal numeral: digits, the first of which is
  \<open>0\<close> only for the numeral \<open>0\<close>, whose value by position is the number; a minus sign
  comes first when the integer is negative.
\<close>

definition isDigit :: "char \<Rightarrow> bool" where
  "isDigit c = (c \<in> set ''0123456789'')"

definition digitValue :: "char \<Rightarrow> nat" where
  "digitValue c = of_char c - 48"

definition numeralValue :: "string \<Rightarrow> nat" where
  "numeralValue tx = foldl (\<lambda>a c. 10 * a + digitValue c) 0 tx"

definition naturalText :: "nat \<Rightarrow> string \<Rightarrow> bool" where
  "naturalText n tx =
     (tx \<noteq> [] \<and> list_all isDigit tx \<and> (hd tx = CHR ''0'' \<longrightarrow> tx = ''0'') \<and>
      numeralValue tx = n)"

definition decimalText :: "int \<Rightarrow> string \<Rightarrow> bool" where
  "decimalText i tx =
     (if i < 0 then tx \<noteq> [] \<and> hd tx = CHR ''-'' \<and> naturalText (nat (- i)) (tl tx)
      else naturalText (nat i) tx)"






subsection \<open>What the engine does on plain text and numbers\<close>



definition asciiLower :: "char \<Rightarrow> char" where
  "asciiLower c =
     (let n = (of_char c :: nat) in if 65 \<le> n \<and> n \<le> 90 then char_of (n + 32) else c)"

definition asciiLowerCase :: "string \<Rightarrow> string" where
  "asciiLowerCase s = map asciiLower s"




text \<open>
  Printing a natural number in decimal, and an integer with its sign: the printing of
  the engine for the status of a response (below \<open>2^16\<close>, line 148), and an instance of
  \<open>Number_toString\<close> in the examples.
\<close>

fun decimal :: "nat \<Rightarrow> string" where
  "decimal n =
     (if n < 10 then [''0123456789'' ! n]
      else decimal (n div 10) @ [''0123456789'' ! (n mod 10)])"

declare decimal.simps [simp del]

definition decimalInt :: "int \<Rightarrow> string" where
  "decimalInt i = (if i < 0 then CHR ''-'' # decimal (nat (- i)) else decimal (nat i))"

subsection \<open>Component state\<close>

text \<open>
  The \<open>useState\<close> cells of the component, the variables of its effects, and the
  promises it is waiting for. \<open>isSubscribed\<close> and \<open>debounceTimer\<close> are the variables of
  the subscription effect (lines 110-111), a timer being its deadline; \<open>autoTimer\<close> is
  the timer of the staleness effect (line 189) with the \<open>leaderboard\<close> its callback
  closes over. \<open>pending\<close> lists the store queries that have been sent and not yet
  answered, each with the caller that awaits it; \<open>jobs\<close> counts the update requests
  (line 145) not yet answered.
\<close>

datatype caller = PlainFetch | UpdateFetch

record component_state =
  leaderboard :: "LeaderboardEntry list"
  filters :: FilterOptions
  searchTerm :: string
  loading :: bool
  refreshing :: bool
  lastUpdated :: string
  error :: string
  updateProgress :: "nat \<times> nat"
  isSubscribed :: bool
  debounceTimer :: "int option"
  autoTimer :: "(int \<times> LeaderboardEntry list) option"
  pending :: "caller list"
  jobs :: nat

text \<open>
  \<open>filteredLeaderboard\<close> is set by the effect of lines 81-106 from \<open>leaderboard\<close>,
  \<open>filters\<close> and \<open>searchTerm\<close> each time one of them changes, so it is a function of
  them.
\<close>

definition filteredLeaderboard ::
  "(string \<Rightarrow> string) \<Rightarrow> (int \<Rightarrow> string) \<Rightarrow> component_state \<Rightarrow> LeaderboardEntry list" where
  "filteredLeaderboard toLowerCase Number_toString st =
     applyFilters toLowerCase Number_toString (leaderboard st) (filters st) (searchTerm st)"

text \<open>
  The error message of the page (lines 394-398): \<open>{error && ...}\<close> shows the text of the
  error cell when it is not empty, and nothing otherwise.
\<close>

definition errorBanner :: "component_state \<Rightarrow> string option" where
  "errorBanner st = (if error st \<noteq> [] then Some (error st) else None)"

subsection \<open>Errors\<close>

text \<open>
  What a \<open>catch\<close> receives: an \<open>Error\<close> object with its message, or any other value.
  \<open>err instanceof Error ? err.message : fallback\<close> (lines 74 and 162).
\<close>

datatype thrown = ErrorObject string | OtherValue

definition errorMessage :: "thrown \<Rightarrow> string \<Rightarrow> string" where
  "errorMessage err fallback = (case err of ErrorObject message \<Rightarrow> message | OtherValue \<Rightarrow> fallback)"

subsection \<open>\<open>fetchLeaderboard\<close> (lines 36-78)\<close>

text \<open>
  The answer to the query of lines 42-46: the promise rejects, or it resolves to
  \<open>{ data, error }\<close>, where \<open>data\<close> may be \<open>null\<close> and a non-null \<open>error\<close> is thrown
  (lines 48-51).
\<close>

datatype query_result =
    QueryRejected thrown
  | QueryResolved "student_xp_row list option" "thrown option"

definition queryThrown :: "query_result \<Rightarrow> thrown option" where
  "queryThrown res = (case res of
       QueryRejected err \<Rightarrow> Some err
     | QueryResolved data supabaseError \<Rightarrow> supabaseError)"

definition queryData :: "query_result \<Rightarrow> student_xp_row list option" where
  "queryData res = (case res of
       QueryRejected err \<Rightarrow> None
     | QueryResolved data supabaseError \<Rightarrow> data)"

text \<open>Up to the \<open>await\<close>: lines 38-42. The query is sent for \<open>who\<close>.\<close>

definition fetchLeaderboard_start :: "bool \<Rightarrow> caller \<Rightarrow> component_state \<Rightarrow> component_state" where
  "fetchLeaderboard_start showLoading who st =
     st\<lparr>loading := (if showLoading then True else loading st),
        error := [],
        pending := pending st @ [who]\<rparr>"

text \<open>
  After the \<open>await\<close>: lines 48-77. \<open>stamp\<close> is \<open>new Date().toLocaleString()\<close> at that
  moment.
\<close>

definition fetchLeaderboard_resume :: "query_result \<Rightarrow> string \<Rightarrow> component_state \<Rightarrow> component_state" where
  "fetchLeaderboard_resume res stamp st =
     (case queryThrown res of
        Some err \<Rightarrow>
          st\<lparr>error := errorMessage err ''Failed to fetch leaderboard'', loading := False\<rparr>
      | None \<Rightarrow>
          st\<lparr>leaderboard := formattedData (queryData res),
             lastUpdated := (case queryData res of
                               None \<Rightarrow> lastUpdated st
                             | Some rows \<Rightarrow> if length rows > 0 then stamp else lastUpdated st),
             loading := False\<rparr>)"

subsection \<open>\<open>updateXPData\<close> (lines 139-167)\<close>

text \<open>
  The answer to the request of line 145: the request rejects; the response is not
  \<open>ok\<close> and has a status, an unsigned integer of 16 bits; reading its JSON rejects; or
  the JSON has a \<open>success\<close> flag and an \<open>error\<close> text (empty when absent).
\<close>

datatype job_outcome =
    JobRejected thrown
  | JobHttpError "16 word"
  | JobJsonRejected thrown
  | JobBody bool string

definition jobThrown :: "job_outcome \<Rightarrow> thrown option" where
  "jobThrown out = (case out of
       JobRejected err \<Rightarrow> Some err
     | JobHttpError status \<Rightarrow>
         Some (ErrorObject (''HTTP error! status: '' @ decimal (unat status)))
     | JobJsonRejected err \<Rightarrow> Some err
     | JobBody success message \<Rightarrow>
         (if success then None
          else Some (ErrorObject (if message \<noteq> [] then message else ''XP update failed''))))"

text \<open>Up to the first \<open>await\<close>: lines 141-145.\<close>

definition updateXPData_start :: "component_state \<Rightarrow> component_state" where
  "updateXPData_start st =
     st\<lparr>refreshing := True, error := [], updateProgress := (0, 0), jobs := Suc (jobs st)\<rparr>"

text \<open>
  When the request is answered: lines 147-166, up to the \<open>await\<close> of line 155 when the
  job succeeded, through \<open>catch\<close> and \<open>finally\<close> when it did not.
\<close>

definition updateXPData_response :: "job_outcome \<Rightarrow> component_state \<Rightarrow> component_state" where
  "updateXPData_response out st =
     (case jobThrown out of
        Some err \<Rightarrow>
          st\<lparr>error := errorMessage err ''Failed to update XP data'',
             refreshing := False, updateProgress := (0, 0)\<rparr>
      | None \<Rightarrow> fetchLeaderboard_start False UpdateFetch st)"

text \<open>After the \<open>await\<close> of line 155: line 156, then \<open>finally\<close>.\<close>

definition updateXPData_finish :: "string \<Rightarrow> component_state \<Rightarrow> component_state" where
  "updateXPData_finish stamp st =
     st\<lparr>lastUpdated := stamp, refreshing := False, updateProgress := (0, 0)\<rparr>"

subsection \<open>The staleness check (lines 175-191)\<close>

text \<open>
  \<open>Date_parse\<close> stands for the parsing done by \<open>new Date(text)\<close>: the time in
  milliseconds, or \<open>None\<close> for an invalid date, whose \<open>getTime()\<close> is \<open>NaN\<close> and compares
  false with everything. \<open>text || 0\<close> turns a missing or empty text into the epoch.
  The result tells whether \<open>updateXPData\<close> is called.
\<close>

definition checkAutoUpdate ::
  "(string \<Rightarrow> int option) \<Rightarrow> int \<Rightarrow> LeaderboardEntry list \<Rightarrow> bool" where
  "checkAutoUpdate Date_parse now lb =
     (let lastUpdate = (case lb of
                          [] \<Rightarrow> Some 0
                        | e # rest \<Rightarrow> if last_updated e = [] then Some 0
                                      else Date_parse (last_updated e))
      in case lastUpdate of
           None \<Rightarrow> False
         | Some ms \<Rightarrow>
             (let hoursSinceUpdate = real_of_int (now - ms) / (1000 * 60 * 60)
              in hoursSinceUpdate \<ge> 24))"

text \<open>The first dependency of the effect (line 191): \<open>null\<close> for an empty list.\<close>

definition autoUpdateKey :: "LeaderboardEntry list \<Rightarrow> string option" where
  "autoUpdateKey lb = (case lb of [] \<Rightarrow> None | e # rest \<Rightarrow> Some (last_updated e))"

subsection \<open>Effects after a state change\<close>

text \<open>
  After a handler has changed the state, React runs again the effects whose
  dependencies changed, each after its own clean-up. \<open>fetchLeaderboard\<close> and
  \<open>updateXPData\<close> are memoised with constant dependencies, so the subscription effect
  (lines 109-137) depends on \<open>loading\<close> alone and the staleness effect on its key alone.
  Running the subscription effect again clears the debounce timer and subscribes
  anew; running the staleness effect again clears its timer and, unless the list is
  empty, sets one for 3 seconds later.
\<close>

definition commit :: "int \<Rightarrow> component_state \<Rightarrow> component_state \<Rightarrow> component_state" where
  "commit now old new =
     (let s1 = (if loading new \<noteq> loading old then new\<lparr>debounceTimer := None\<rparr> else new);
          s2 = (if autoUpdateKey (leaderboard s1) \<noteq> autoUpdateKey (leaderboard old)
                then s1\<lparr>autoTimer := (if length (leaderboard s1) = 0 then None
                                       else Some (now + 3000, leaderboard s1))\<rparr>
                else s1)
      in s2)"

subsection \<open>Events\<close>

datatype event =
    ClickReload
  | ClickRefreshXP
  | Notify
  | QueryDone caller query_result string
  | JobDone job_outcome
  | SetCohortType string
  | SetCohortNumber string
  | SetSearchTerm string
  | ClearAllFilters
  | Unmount

text \<open>
  The handlers. The Reload button is disabled while \<open>loading\<close> (line 279), the Refresh
  XP button while \<open>refreshing || loading\<close> (line 287). A change notification (lines
  117-128) restarts the debounce timer. An answered query resumes \<open>fetchLeaderboard\<close>
  and, when \<open>updateXPData\<close> awaited it, \<open>updateXPData\<close> after it, in the same turn of
  the event loop.
\<close>

fun react :: "int \<Rightarrow> event \<Rightarrow> component_state \<Rightarrow> component_state" where
  "react now ClickReload st =
     (if loading st then st else fetchLeaderboard_start True PlainFetch st)"
| "react now ClickRefreshXP st =
     (if refreshing st \<or> loading st then st else updateXPData_start st)"
| "react now Notify st =
     (if isSubscribed st \<and> \<not> loading st then st\<lparr>debounceTimer := Some (now + 2000)\<rparr> else st)"
| "react now (QueryDone who res stamp) st =
     (if who \<in> set (pending st)
      then (let st1 = fetchLeaderboard_resume res stamp (st\<lparr>pending := remove1 who (pending st)\<rparr>)
            in case who of PlainFetch \<Rightarrow> st1 | UpdateFetch \<Rightarrow> updateXPData_finish stamp st1)
      else st)"
| "react now (JobDone out) st =
     (if jobs st = 0 then st else updateXPData_response out (st\<lparr>jobs := jobs st - 1\<rparr>))"
| "react now (SetCohortType v) st = st\<lparr>filters := (filters st)\<lparr>cohortType := v\<rparr>\<rparr>"
| "react now (SetCohortNumber v) st = st\<lparr>filters := (filters st)\<lparr>cohortNumber := v\<rparr>\<rparr>"
| "react now (SetSearchTerm v) st = st\<lparr>searchTerm := v\<rparr>"
| "react now ClearAllFilters st =
     st\<lparr>filters := \<lparr>cohortType = [], cohortNumber = []\<rparr>, searchTerm := []\<rparr>"
| "react now Unmount st = st"

text \<open>
  Unmounting runs the clean-up of both effects (lines 132-136 and 190). Afterwards the
  component has no state to set and no buttons, but the promises it started still
  resolve: an update job that succeeds then still sends its query (line 155).
\<close>

definition unmount :: "component_state \<Rightarrow> component_state" where
  "unmount st = st\<lparr>isSubscribed := False, debounceTimer := None, autoTimer := None\<rparr>"

fun afterUnmount :: "event \<Rightarrow> component_state \<Rightarrow> component_state" where
  "afterUnmount (QueryDone who res stamp) st =
     (if who \<in> set (pending st) then st\<lparr>pending := remove1 who (pending st)\<rparr> else st)"
| "afterUnmount (JobDone out) st =
     (if jobs st = 0 then st
      else (case jobThrown out of
              Some err \<Rightarrow> st\<lparr>jobs := jobs st - 1\<rparr>
            | None \<Rightarrow> st\<lparr>jobs := jobs st - 1, pending := pending st @ [UpdateFetch]\<rparr>))"
| "afterUnmount ev st = st"

definition handle :: "int \<Rightarrow> event \<Rightarrow> component_state \<Rightarrow> component_state" where
  "handle now ev st =
     (if \<not> isSubscribed st then afterUnmount ev st
      else if ev = Unmount then unmount st
      else commit now st (react now ev st))"

subsection \<open>Timers\<close>

text \<open>
  The callback of the debounce timer (lines 122-126) and that of the staleness timer
  (lines 178-186). Neither changes \<open>loading\<close> or \<open>leaderboard\<close>, so no effect runs again
  after them.
\<close>

definition fireDebounce :: "component_state \<Rightarrow> component_state" where
  "fireDebounce st =
     (let st1 = st\<lparr>debounceTimer := None\<rparr>
      in if isSubscribed st1 then fetchLeaderboard_start False PlainFetch st1 else st1)"

definition fireAuto :: "(string \<Rightarrow> int option) \<Rightarrow> int \<Rightarrow> component_state \<Rightarrow> component_state" where
  "fireAuto Date_parse now st =
     (case autoTimer st of
        None \<Rightarrow> st
      | Some (deadline, lb) \<Rightarrow>
          (let st1 = st\<lparr>autoTimer := None\<rparr>
           in if checkAutoUpdate Date_parse now lb then updateXPData_start st1 else st1))"

text \<open>
  Time passes until \<open>t\<close>: a timer whose deadline has come fires, at its deadline. The
  two callbacks write different cells apart from \<open>error\<close>, which both clear, so their
  order does not matter.
\<close>

definition advanceDebounce :: "int \<Rightarrow> component_state \<Rightarrow> component_state" where
  "advanceDebounce t st =
     (case debounceTimer st of
        None \<Rightarrow> st
      | Some deadline \<Rightarrow> if deadline \<le> t then fireDebounce st else st)"

definition advanceAuto :: "(string \<Rightarrow> int option) \<Rightarrow> int \<Rightarrow> component_state \<Rightarrow> component_state" where
  "advanceAuto Date_parse t st =
     (case autoTimer st of
        None \<Rightarrow> st
      | Some (deadline, lb) \<Rightarrow> if deadline \<le> t then fireAuto Date_parse deadline st else st)"

definition advance :: "(string \<Rightarrow> int option) \<Rightarrow> int \<Rightarrow> component_state \<Rightarrow> component_state" where
  "advance Date_parse t st = advanceAuto Date_parse t (advanceDebounce t st)"

text \<open>An event at time \<open>t\<close>, and a sequence of events in the order of their times.\<close>

definition step :: "(string \<Rightarrow> int option) \<Rightarrow> int \<times> event \<Rightarrow> component_state \<Rightarrow> component_state" where
  "step Date_parse te st = (case te of (t, ev) \<Rightarrow> handle t ev (advance Date_parse t st))"

fun run :: "(string \<Rightarrow> int option) \<Rightarrow> (int \<times> event) list \<Rightarrow> component_state \<Rightarrow> component_state" where
  "run Date_parse [] st = st"
| "run Date_parse (te # rest) st = run Date_parse rest (step Date_parse te st)"

text \<open>
  The state after the first render: \<open>loading\<close> starts true, the subscription effect has
  subscribed, the initial load (lines 170-172) has sent its query, and the staleness
  effect found an empty list.
\<close>

definition mount :: component_state where
  "mount =
     \<lparr>leaderboard = [], filters = \<lparr>cohortType = [], cohortNumber = []\<rparr>, searchTerm = [],
      loading = True, refreshing = False, lastUpdated = [], error = [],
      updateProgress = (0, 0), isSubscribed = True, debounceTimer = None, autoTimer = None,
      pending = [PlainFetch], jobs = 0\<rparr>"

text \<open>A burst of change notifications, one at each of the given times.\<close>

definition burst :: "int list \<Rightarrow> (int \<times> event) list" where
  "burst ts = map (\<lambda>t. (t, Notify)) ts"

subsection \<open>Example data\<close>

definition exampleRow :: "string \<Rightarrow> string \<Rightarrow> string \<Rightarrow> int \<Rightarrow> string \<Rightarrow> student_xp_row" where
  "exampleRow ident ctype cnumber points stamp =
     \<lparr>row_enrollment_id = ident, row_full_name = ''Student '' @ ident,
      row_email = ident @ ''@example.org'', row_cohort_type = ctype,
      row_cohort_number = cnumber, row_xp = points, row_last_updated = stamp\<rparr>"

section \<open>Ranking and filtering\<close>

subsection \<open>Formatting\<close>

lemma rowOf_formatEntry: "rowOf (formatEntry p) = snd p"
  by (cases p) (simp add: rowOf_def formatEntry_def)

lemma map_rowOf_formattedData: "map rowOf (formattedData (Some rows)) = rows"
proof -
  have "map rowOf (formattedData (Some rows)) = map snd (enumerate 0 rows)"
    by (simp add: formattedData_def comp_def rowOf_formatEntry)
  then show ?thesis by simp
qed

lemma rank_formatEntry: "rank (formatEntry p) = Suc (fst p)"
  by (simp add: formatEntry_def split_def)

lemma length_formattedData:
  "length (formattedData data) = (case data of None \<Rightarrow> 0 | Some rows \<Rightarrow> length rows)"
  by (simp add: formattedData_def split: option.split)

lemma map_rank_formattedData: "map rank (formattedData data) = [1..<Suc (length (formattedData data))]"
proof -
  define rows where "rows = (case data of None \<Rightarrow> [] | Some r \<Rightarrow> r)"
  have fd: "formattedData data = map formatEntry (enumerate 0 rows)"
    by (simp add: formattedData_def rows_def)
  have "map rank (formattedData data) = map (\<lambda>x. Suc (fst x)) (enumerate 0 rows)"
    by (simp add: fd comp_def rank_formatEntry)
  also have "\<dots> = map Suc (map fst (enumerate 0 rows))" by (simp only: map_map comp_def)
  also have "\<dots> = map Suc [0..<length rows]" by simp
  also have "\<dots> = [1..<Suc (length rows)]" by (simp only: map_Suc_upt One_nat_def)
  finally show ?thesis by (simp add: fd)
qed

lemma rank_nth_formattedData:
  "i < length (formattedData data) \<Longrightarrow> rank (formattedData data ! i) = Suc i"
proof -
  assume h: "i < length (formattedData data)"
  have "rank (formattedData data ! i) = map rank (formattedData data) ! i"
    using h by simp
  also have "\<dots> = [1..<Suc (length (formattedData data))] ! i"
    by (simp only: map_rank_formattedData)
  also have "\<dots> = Suc i" using h by (simp del: upt_Suc)
  finally show ?thesis .
qed

lemma entriesOrdered_formattedData:
  "rowsOrdered le rows \<Longrightarrow> entriesOrdered le (formattedData (Some rows))"
proof -
  assume h: "rowsOrdered le rows"
  have "entriesOrdered le es = rowsOrdered le (map rowOf es)" for es
    by (simp add: entriesOrdered_def rowsOrdered_def sorted_wrt_map rowOf_def)
  then show ?thesis using h by (simp add: map_rowOf_formattedData)
qed

subsection \<open>Decimal numerals\<close>

lemma digit_nth:
  assumes "d < 10"
  shows "isDigit (''0123456789'' ! d)" and "digitValue (''0123456789'' ! d) = d"
proof -
  from assms have "d \<in> {0, 1, 2, 3, 4, 5, 6, 7, 8, 9}" by auto
  then show "isDigit (''0123456789'' ! d)" and "digitValue (''0123456789'' ! d) = d"
    by (auto simp: isDigit_def digitValue_def)
qed

lemma isDigit_nth:
  assumes "isDigit c"
  shows "digitValue c < 10" and "''0123456789'' ! digitValue c = c"
  using assms by (auto simp: isDigit_def digitValue_def)

lemma numeralValue_snoc: "numeralValue (tx @ [c]) = 10 * numeralValue tx + digitValue c"
  by (simp add: numeralValue_def)

lemma numeralValue_Nil: "numeralValue [] = 0"
  by (simp add: numeralValue_def)

lemma numeralValue_pos:
  "tx \<noteq> [] \<Longrightarrow> list_all isDigit tx \<Longrightarrow> hd tx \<noteq> CHR ''0'' \<Longrightarrow> 0 < numeralValue tx"
proof (induction tx rule: rev_induct)
  case Nil
  then show ?case by simp
next
  case (snoc c tx)
  show ?case
  proof (cases "tx = []")
    case True
    with snoc.prems have "isDigit c" "c \<noteq> CHR ''0''" by simp_all
    then have "0 < digitValue c" by (auto simp: isDigit_def digitValue_def)
    with True show ?thesis by (simp add: numeralValue_def)
  next
    case False
    with snoc have "0 < numeralValue tx" by simp
    then show ?thesis by (simp add: numeralValue_snoc)
  qed
qed

lemma naturalText_decimal: "naturalText n (decimal n)"
proof (induction n rule: decimal.induct)
  case (1 n)
  show ?case
  proof (cases "n < 10")
    case True
    then have d: "decimal n = [''0123456789'' ! n]" by (simp add: decimal.simps)
    from True have "n \<in> {0, 1, 2, 3, 4, 5, 6, 7, 8, 9}" by auto
    then show ?thesis
      unfolding d by (auto simp: naturalText_def isDigit_def numeralValue_def digitValue_def)
  next
    case False
    then have d: "decimal n = decimal (n div 10) @ [''0123456789'' ! (n mod 10)]"
      by (subst decimal.simps) simp
    from False 1 have ih: "naturalText (n div 10) (decimal (n div 10))" by simp
    have m: "n mod 10 < 10" by simp
    from ih have ne: "decimal (n div 10) \<noteq> []" and dg: "list_all isDigit (decimal (n div 10))"
      and v: "numeralValue (decimal (n div 10)) = n div 10"
      and z: "hd (decimal (n div 10)) = CHR ''0'' \<longrightarrow> decimal (n div 10) = ''0''"
      by (simp_all add: naturalText_def)
    have nz: "hd (decimal (n div 10)) \<noteq> CHR ''0''"
    proof
      assume "hd (decimal (n div 10)) = CHR ''0''"
      with z have "decimal (n div 10) = ''0''" by simp
      with v have "n div 10 = 0" by (simp add: numeralValue_def digitValue_def)
      with False show False by simp
    qed
    show ?thesis
      unfolding d naturalText_def
      using ne dg v nz digit_nth [OF m]
      by (simp add: numeralValue_snoc)
  qed
qed

lemma naturalText_unique: "naturalText n tx \<Longrightarrow> tx = decimal n"
proof (induction tx arbitrary: n rule: rev_induct)
  case Nil
  then show ?case by (simp add: naturalText_def)
next
  case (snoc c tx)
  from snoc.prems have dc: "isDigit c" and dt: "list_all isDigit tx"
    and v: "10 * numeralValue tx + digitValue c = n"
    and z: "hd (tx @ [c]) = CHR ''0'' \<longrightarrow> tx @ [c] = ''0''"
    by (simp_all add: naturalText_def numeralValue_snoc)
  note c = isDigit_nth [OF dc]
  show ?case
  proof (cases "tx = []")
    case True
    with v have "n = digitValue c" by (simp add: numeralValue_Nil)
    with c True show ?thesis by (simp add: decimal.simps)
  next
    case False
    with z have nz: "hd tx \<noteq> CHR ''0''" by auto
    then have "naturalText (numeralValue tx) tx"
      using False dt by (simp add: naturalText_def)
    then have t: "tx = decimal (numeralValue tx)" by (rule snoc.IH)
    have pos: "0 < numeralValue tx" using False dt nz by (rule numeralValue_pos)
    from v c(1) have dv: "n div 10 = numeralValue tx" and md: "n mod 10 = digitValue c" by auto
    from pos v have big: "\<not> n < 10" by simp
    have "decimal n = decimal (n div 10) @ [''0123456789'' ! (n mod 10)]"
      using big by (subst decimal.simps) simp
    with dv md t c(2) show ?thesis by simp
  qed
qed

lemma naturalText_iff: "naturalText n tx \<longleftrightarrow> tx = decimal n"
  using naturalText_unique naturalText_decimal by blast

lemma decimalText_iff: "decimalText i tx \<longleftrightarrow> tx = decimalInt i"
  by (cases tx) (auto simp: decimalText_def decimalInt_def naturalText_iff)


subsection \<open>Letters\<close>













subsection \<open>The filter\<close>

lemma applyFilters_eq_filter:
  "applyFilters L N lb fs s =
     filter (\<lambda>e. (cohortType fs = [] \<or> cohort_type e = cohortType fs) \<and>
                 (cohortNumber fs = [] \<or> str_includes (cohort_number e) (cohortNumber fs)) \<and>
                 (s = [] \<or> searchMatches L N s e)) lb"
  by (auto simp: applyFilters_def Let_def intro!: filter_cong)

lemma applyFilters_search:
  "applyFilters L N lb fs s =
     (if s \<noteq> [] then filter (searchMatches L N s) (applyFilters L N lb fs [])
      else applyFilters L N lb fs [])"
  by (simp add: applyFilters_def Let_def)

lemma applyFilters_subseq: "subseq (applyFilters L N lb fs s) lb"
  by (simp add: applyFilters_eq_filter)

lemma applyFilters_rank:
  assumes "e \<in> set (applyFilters L N (formattedData data) fs s)"
  shows "1 \<le> rank e \<and> rank e \<le> length (formattedData data) \<and> formattedData data ! (rank e - 1) = e"
proof -
  from assms have "e \<in> set (formattedData data)" by (simp add: applyFilters_eq_filter)
  then obtain i where i: "i < length (formattedData data)" "formattedData data ! i = e"
    by (auto simp: in_set_conv_nth)
  then have "rank e = Suc i" using rank_nth_formattedData by blast
  with i show ?thesis by simp
qed




lemma displayRows_fst: "map fst (displayRows v) = [1..<Suc (length v)]"
proof -
  have "map fst (displayRows v) = map (\<lambda>x. Suc (fst x)) (enumerate 0 v)"
    by (simp add: displayRows_def comp_def split_def)
  also have "\<dots> = map Suc (map fst (enumerate 0 v))" by (simp only: map_map comp_def)
  also have "\<dots> = map Suc [0..<length v]" by simp
  also have "\<dots> = [1..<Suc (length v)]" by (simp only: map_Suc_upt One_nat_def)
  finally show ?thesis .
qed

lemma displayRows_snd: "map snd (displayRows v) = v"
proof -
  have "map snd (displayRows v) = map snd (enumerate 0 v)"
    by (simp add: displayRows_def comp_def split_def)
  then show ?thesis by simp
qed

subsection \<open>Ranks\<close>

text \<open>
  Claim C1, as the code has it. \<open>fetchLeaderboard\<close> does not sort: it keeps the records
  in the order of the store's answer (which the query asks to be by score descending,
  ties by ascending update time) and gives each record the rank of its 1-based
  position. So the ranks of \<open>N\<close> records are exactly \<open>1..N\<close>, without gap or duplicate,
  a missing answer gives the empty list, and the entries are in the requested order
  whenever the rows of the answer are.
\<close>

theorem formattedData_keeps_store_order:
  "map rowOf (formattedData (Some rows)) = rows \<and>
   formattedData None = [] \<and>
   map rank (formattedData data) = [1..<Suc (length (formattedData data))] \<and>
   (rowsOrdered le rows \<longrightarrow> entriesOrdered le (formattedData (Some rows)))"
  by (simp add: map_rowOf_formattedData map_rank_formattedData entriesOrdered_formattedData)
     (simp add: formattedData_def)

text \<open>
  The three records of the specification's scenario A, answered in the requested order:
  900, then the two of 500 by update time.
\<close>

theorem formattedData_keeps_store_order_witness:
  "rowsOrdered (\<le>)
     [exampleRow ''E3'' ''MERN'' ''2.0'' 900 ''2025-01-03'',
      exampleRow ''E2'' ''Basic'' ''1.0'' 500 ''2025-01-01'',
      exampleRow ''E1'' ''Basic'' ''2.0'' 500 ''2025-01-02''] \<and>
   entriesOrdered (\<le>) (formattedData (Some
     [exampleRow ''E3'' ''MERN'' ''2.0'' 900 ''2025-01-03'',
      exampleRow ''E2'' ''Basic'' ''1.0'' 500 ''2025-01-01'',
      exampleRow ''E1'' ''Basic'' ''2.0'' 500 ''2025-01-02''])) \<and>
   map rank (formattedData (Some
     [exampleRow ''E3'' ''MERN'' ''2.0'' 900 ''2025-01-03'',
      exampleRow ''E2'' ''Basic'' ''1.0'' 500 ''2025-01-01'',
      exampleRow ''E1'' ''Basic'' ''2.0'' 500 ''2025-01-02''])) = [1, 2, 3]"
proof -
  let ?rows = "[exampleRow ''E3'' ''MERN'' ''2.0'' 900 ''2025-01-03'',
      exampleRow ''E2'' ''Basic'' ''1.0'' 500 ''2025-01-01'',
      exampleRow ''E1'' ''Basic'' ''2.0'' 500 ''2025-01-02'']"
  have h: "rowsOrdered (\<le>) ?rows" by code_simp
  have l: "length (formattedData (Some ?rows)) = 3" by (simp add: formattedData_def)
  have u: "[1..<Suc 3] = [1, 2, 3]" by code_simp
  from formattedData_keeps_store_order [of ?rows "Some ?rows" "(\<le>)"] h l u
  show ?thesis by simp
qed

text \<open>
  Claim C1 as stated fails when the store answers in another order: rank 1 goes to the
  record with 100 points, rank 2 to the one with 200.
\<close>

theorem formattedData_unsorted_counterexample:
  "map rank (formattedData (Some
     [exampleRow ''E1'' ''Basic'' ''1.0'' 100 ''2025-01-01'',
      exampleRow ''E2'' ''Basic'' ''1.0'' 200 ''2025-01-01''])) = [1, 2] \<and>
   map xp (formattedData (Some
     [exampleRow ''E1'' ''Basic'' ''1.0'' 100 ''2025-01-01'',
      exampleRow ''E2'' ''Basic'' ''1.0'' 200 ''2025-01-01''])) = [100, 200] \<and>
   \<not> entriesOrdered (\<le>) (formattedData (Some
     [exampleRow ''E1'' ''Basic'' ''1.0'' 100 ''2025-01-01'',
      exampleRow ''E2'' ''Basic'' ''1.0'' 200 ''2025-01-01'']))"
  by (simp add: formattedData_def formatEntry_def exampleRow_def entriesOrdered_def requestedOrder_def)

subsection \<open>The filtered view\<close>

text \<open>
  Claim C4, as the code has it. For every ranked list and all criteria, the filtered
  view is a subsequence of the list, in the same relative order, and every entry in it
  keeps its \<open>rank\<close> field, which still is its position in the canonical list. The
  table, however, shows each entry of the view with the number of its row: the entries
  of the view unchanged, numbered \<open>1..k\<close> for a view of \<open>k\<close> entries. This holds whatever
  the engine's lower-casing and printing of numbers do.
\<close>

theorem applyFilters_keeps_order_and_rank:
  "subseq (applyFilters toLowerCase Number_toString lb fs s) lb \<and>
   (\<forall>e \<in> set (applyFilters toLowerCase Number_toString (formattedData data) fs s).
      1 \<le> rank e \<and> rank e \<le> length (formattedData data) \<and>
      formattedData data ! (rank e - 1) = e) \<and>
   map snd (displayRows (applyFilters toLowerCase Number_toString lb fs s))
     = applyFilters toLowerCase Number_toString lb fs s \<and>
   map fst (displayRows (applyFilters toLowerCase Number_toString lb fs s))
     = [1..<Suc (length (applyFilters toLowerCase Number_toString lb fs s))]"
  using applyFilters_rank [of _ toLowerCase Number_toString data fs s]
  by (simp add: applyFilters_subseq displayRows_fst displayRows_snd)

text \<open>The third of three records, kept by a cohort type and a search term.\<close>

theorem applyFilters_keeps_order_and_rank_witness:
  "applyFilters asciiLowerCase decimalInt (formattedData (Some
      [exampleRow ''E3'' ''MERN'' ''2.0'' 900 ''2025-01-03'',
       exampleRow ''E2'' ''Basic'' ''1.0'' 500 ''2025-01-01'',
       exampleRow ''E1'' ''MERN'' ''2.0'' 500 ''2025-01-02'']))
     \<lparr>cohortType = ''MERN'', cohortNumber = []\<rparr> ''e1''
     = [formatEntry (2, exampleRow ''E1'' ''MERN'' ''2.0'' 500 ''2025-01-02'')] \<and>
   formattedData (Some
      [exampleRow ''E3'' ''MERN'' ''2.0'' 900 ''2025-01-03'',
       exampleRow ''E2'' ''Basic'' ''1.0'' 500 ''2025-01-01'',
       exampleRow ''E1'' ''MERN'' ''2.0'' 500 ''2025-01-02''])
     ! (rank (formatEntry (2, exampleRow ''E1'' ''MERN'' ''2.0'' 500 ''2025-01-02'')) - 1)
     = formatEntry (2, exampleRow ''E1'' ''MERN'' ''2.0'' 500 ''2025-01-02'')"
proof -
  let ?data = "Some
      [exampleRow ''E3'' ''MERN'' ''2.0'' 900 ''2025-01-03'',
       exampleRow ''E2'' ''Basic'' ''1.0'' 500 ''2025-01-01'',
       exampleRow ''E1'' ''MERN'' ''2.0'' 500 ''2025-01-02'']"
  let ?fs = "\<lparr>cohortType = ''MERN'', cohortNumber = []\<rparr>"
  let ?e = "formatEntry (2, exampleRow ''E1'' ''MERN'' ''2.0'' 500 ''2025-01-02'')"
  have v: "applyFilters asciiLowerCase decimalInt (formattedData ?data) ?fs ''e1'' = [?e]"
    by code_simp
  from applyFilters_keeps_order_and_rank
         [of asciiLowerCase decimalInt "formattedData ?data" ?fs "''e1''" ?data] v
  show ?thesis by simp
qed

text \<open>
  Claim C4 as stated fails for the displayed rank: with the first of two records
  filtered out, the second, of rank 2, is shown as number 1.
\<close>

theorem displayRows_renumbers_counterexample:
  "map fst (displayRows (applyFilters asciiLowerCase decimalInt (formattedData (Some
        [exampleRow ''E1'' ''Basic'' ''1.0'' 900 ''2025-01-01'',
         exampleRow ''E2'' ''MERN'' ''1.0'' 500 ''2025-01-01'']))
        \<lparr>cohortType = ''MERN'', cohortNumber = []\<rparr> [])) = [1] \<and>
   map rank (applyFilters asciiLowerCase decimalInt (formattedData (Some
        [exampleRow ''E1'' ''Basic'' ''1.0'' 900 ''2025-01-01'',
         exampleRow ''E2'' ''MERN'' ''1.0'' 500 ''2025-01-01'']))
        \<lparr>cohortType = ''MERN'', cohortNumber = []\<rparr> []) = [2]"
  by code_simp



text \<open>
  Claim C9. Adding a search term that is not empty to any criteria never makes the
  filtered view longer, whatever the engine's lower-casing and printing of numbers do.
\<close>

theorem applyFilters_search_monotonic:
  "s \<noteq> [] \<Longrightarrow>
     length (applyFilters toLowerCase Number_toString lb fs s)
       \<le> length (applyFilters toLowerCase Number_toString lb fs [])"
  by (simp add: applyFilters_search [of toLowerCase Number_toString lb fs s])

text \<open>Two records of one cohort type; the search term \<open>900\<close> keeps one of them.\<close>

theorem applyFilters_search_monotonic_witness:
  "''900'' \<noteq> [] \<and>
   length (applyFilters asciiLowerCase decimalInt (formattedData (Some
      [exampleRow ''E3'' ''MERN'' ''2.0'' 900 ''2025-01-03'',
       exampleRow ''E1'' ''MERN'' ''1.0'' 500 ''2025-01-02'']))
      \<lparr>cohortType = ''MERN'', cohortNumber = []\<rparr> ''900'')
   \<le> length (applyFilters asciiLowerCase decimalInt (formattedData (Some
      [exampleRow ''E3'' ''MERN'' ''2.0'' 900 ''2025-01-03'',
       exampleRow ''E1'' ''MERN'' ''1.0'' 500 ''2025-01-02'']))
      \<lparr>cohortType = ''MERN'', cohortNumber = []\<rparr> [])"
  using applyFilters_search_monotonic [of "''900''" asciiLowerCase decimalInt "formattedData (Some
      [exampleRow ''E3'' ''MERN'' ''2.0'' 900 ''2025-01-03'',
       exampleRow ''E1'' ''MERN'' ''1.0'' 500 ''2025-01-02''])"
      "\<lparr>cohortType = ''MERN'', cohortNumber = []\<rparr>"]
  by simp

section \<open>Refreshing\<close>

subsection \<open>Effects and handlers\<close>

lemma commit_same: "commit now st st = st"
  by (simp add: commit_def)

lemma commit_unchanged:
  "loading new = loading old \<Longrightarrow> leaderboard new = leaderboard old \<Longrightarrow> commit now old new = new"
  by (simp add: commit_def)

lemma commit_fields:
  "leaderboard (commit now old new) = leaderboard new"
  "loading (commit now old new) = loading new"
  "refreshing (commit now old new) = refreshing new"
  "error (commit now old new) = error new"
  "lastUpdated (commit now old new) = lastUpdated new"
  "pending (commit now old new) = pending new"
  "jobs (commit now old new) = jobs new"
  "filters (commit now old new) = filters new"
  "searchTerm (commit now old new) = searchTerm new"
  "isSubscribed (commit now old new) = isSubscribed new"
  by (simp_all add: commit_def Let_def)

lemma filteredLeaderboard_commit:
  "filteredLeaderboard L N (commit now old new) = filteredLeaderboard L N new"
  by (simp add: filteredLeaderboard_def commit_fields)

lemma handle_mounted:
  "isSubscribed st \<Longrightarrow> ev \<noteq> Unmount \<Longrightarrow> handle now ev st = commit now st (react now ev st)"
  by (simp add: handle_def)

lemma resume_failure:
  assumes "queryThrown res = Some err"
  shows "fetchLeaderboard_resume res stamp st =
           st\<lparr>error := errorMessage err ''Failed to fetch leaderboard'', loading := False\<rparr>"
  using assms by (simp add: fetchLeaderboard_resume_def)


subsection \<open>Fetching\<close>

lemma formattedData_eq_Nil:
  "formattedData data = [] \<longleftrightarrow> (case data of None \<Rightarrow> True | Some rows \<Rightarrow> rows = [])"
proof -
  have "formattedData data = [] \<longleftrightarrow> length (formattedData data) = 0" by simp
  then show ?thesis by (simp add: length_formattedData split: option.split)
qed

lemma queryThrown_failure:
  "res = QueryRejected err \<or> res = QueryResolved data (Some err) \<Longrightarrow> queryThrown res = Some err"
  by (auto simp: queryThrown_def)

lemma react_QueryDone_failure:
  assumes "who \<in> set (pending st)" and "queryThrown res = Some err"
  shows "react now (QueryDone who res stamp) st =
           (case who of
              PlainFetch \<Rightarrow>
                st\<lparr>pending := remove1 who (pending st),
                   error := errorMessage err ''Failed to fetch leaderboard'', loading := False\<rparr>
            | UpdateFetch \<Rightarrow>
                st\<lparr>pending := remove1 who (pending st),
                   error := errorMessage err ''Failed to fetch leaderboard'', loading := False,
                   lastUpdated := stamp, refreshing := False, updateProgress := (0, 0)\<rparr>)"
  using assms by (simp add: resume_failure updateXPData_finish_def split: caller.split)

lemma react_QueryDone_success:
  assumes "who \<in> set (pending st)"
  shows "react now (QueryDone who (QueryResolved data None) stamp) st =
           (case who of
              PlainFetch \<Rightarrow>
                st\<lparr>pending := remove1 who (pending st),
                   leaderboard := formattedData data,
                   lastUpdated := (if formattedData data = [] then lastUpdated st else stamp),
                   loading := False\<rparr>
            | UpdateFetch \<Rightarrow>
                st\<lparr>pending := remove1 who (pending st),
                   leaderboard := formattedData data,
                   loading := False,
                   lastUpdated := stamp, refreshing := False, updateProgress := (0, 0)\<rparr>)"
  using assms
  by (simp add: fetchLeaderboard_resume_def queryThrown_def queryData_def updateXPData_finish_def
        formattedData_eq_Nil split: caller.split option.split)

lemma loading_after_QueryDone:
  assumes "isSubscribed st" and "who \<in> set (pending st)"
  shows "loading (handle now (QueryDone who res stamp) st) = False"
  using assms
  by (simp add: handle_mounted commit_fields fetchLeaderboard_resume_def updateXPData_finish_def
        Let_def split: caller.split option.split)

text \<open>
  Claim C7, as the code has it. When a query that the component awaits fails (its
  promise rejects, or the store answers with an error), the error cell receives the
  message of the thrown \<open>Error\<close>, or \<open>Failed to fetch leaderboard\<close> when the thrown value
  is not an \<open>Error\<close>, and the page shows it unless it is empty, which it is only for an
  \<open>Error\<close> with an empty message. The list, and with it the filtered view, stays as it
  was; \<open>loading\<close> is false again, and a Reload click after that sends a new query.
\<close>

theorem fetch_failure_keeps_dataset:
  assumes "isSubscribed st" and "who \<in> set (pending st)"
    and "res = QueryRejected err \<or> res = QueryResolved data (Some err)"
  shows "error (handle now (QueryDone who res stamp) st)
           = (case err of ErrorObject message \<Rightarrow> message
                        | OtherValue \<Rightarrow> ''Failed to fetch leaderboard'') \<and>
         (err \<noteq> ErrorObject [] \<longrightarrow>
            errorBanner (handle now (QueryDone who res stamp) st)
              = Some (case err of ErrorObject message \<Rightarrow> message
                                | OtherValue \<Rightarrow> ''Failed to fetch leaderboard'')) \<and>
         leaderboard (handle now (QueryDone who res stamp) st) = leaderboard st \<and>
         filteredLeaderboard toLowerCase Number_toString (handle now (QueryDone who res stamp) st)
           = filteredLeaderboard toLowerCase Number_toString st \<and>
         loading (handle now (QueryDone who res stamp) st) = False \<and>
         pending (handle later ClickReload (handle now (QueryDone who res stamp) st))
           = remove1 who (pending st) @ [PlainFetch]"
proof -
  let ?st' = "handle now (QueryDone who res stamp) st"
  let ?text = "case err of ErrorObject message \<Rightarrow> message
                         | OtherValue \<Rightarrow> ''Failed to fetch leaderboard''"
  have h: "?st' = commit now st (react now (QueryDone who res stamp) st)"
    using assms(1) by (simp add: handle_mounted)
  note r = react_QueryDone_failure [OF assms(2) queryThrown_failure [OF assms(3)], of now stamp]
  have e: "error ?st' = ?text"
    unfolding h r by (simp add: commit_fields errorMessage_def split: caller.split)
  have b: "errorBanner ?st' = Some ?text" if "err \<noteq> ErrorObject []"
    using that unfolding errorBanner_def e by (cases err) simp_all
  have l: "leaderboard ?st' = leaderboard st"
    unfolding h r by (simp add: commit_fields split: caller.split)
  have f: "filters ?st' = filters st" "searchTerm ?st' = searchTerm st"
    unfolding h r by (simp_all add: commit_fields split: caller.split)
  have lo: "loading ?st' = False"
    unfolding h r by (simp add: commit_fields split: caller.split)
  have s: "isSubscribed ?st'"
    using assms(1) unfolding h r by (simp add: commit_fields split: caller.split)
  have p: "pending ?st' = remove1 who (pending st)"
    unfolding h r by (simp add: commit_fields split: caller.split)
  have "pending (handle later ClickReload ?st') = pending ?st' @ [PlainFetch]"
    using s lo by (simp add: handle_mounted commit_fields fetchLeaderboard_start_def)
  with e b l f lo p show ?thesis by (simp add: filteredLeaderboard_def)
qed

text \<open>
  A Reload whose query the store answers with an error, after a first load of one
  record; and the same with a promise that rejects with a value that is not an \<open>Error\<close>.
\<close>

theorem fetch_failure_keeps_dataset_witness:
  "errorBanner (handle 3000
      (QueryDone PlainFetch (QueryResolved None (Some (ErrorObject ''permission denied''))) ''12:00:03'')
      (run (map_of [])
        [(1000, QueryDone PlainFetch (QueryResolved (Some
            [exampleRow ''E1'' ''MERN'' ''1.0'' 900 ''2025-01-01T00:00:00Z'']) None) ''12:00:01''),
         (2000, ClickReload)] mount)) = Some ''permission denied'' \<and>
   errorBanner (handle 3000
      (QueryDone PlainFetch (QueryRejected OtherValue) ''12:00:03'')
      (run (map_of [])
        [(1000, QueryDone PlainFetch (QueryResolved (Some
            [exampleRow ''E1'' ''MERN'' ''1.0'' 900 ''2025-01-01T00:00:00Z'']) None) ''12:00:01''),
         (2000, ClickReload)] mount)) = Some ''Failed to fetch leaderboard'' \<and>
   leaderboard (handle 3000
      (QueryDone PlainFetch (QueryResolved None (Some (ErrorObject ''permission denied''))) ''12:00:03'')
      (run (map_of [])
        [(1000, QueryDone PlainFetch (QueryResolved (Some
            [exampleRow ''E1'' ''MERN'' ''1.0'' 900 ''2025-01-01T00:00:00Z'']) None) ''12:00:01''),
         (2000, ClickReload)] mount))
     = formattedData (Some [exampleRow ''E1'' ''MERN'' ''1.0'' 900 ''2025-01-01T00:00:00Z'']) \<and>
   loading (handle 3000
      (QueryDone PlainFetch (QueryResolved None (Some (ErrorObject ''permission denied''))) ''12:00:03'')
      (run (map_of [])
        [(1000, QueryDone PlainFetch (QueryResolved (Some
            [exampleRow ''E1'' ''MERN'' ''1.0'' 900 ''2025-01-01T00:00:00Z'']) None) ''12:00:01''),
         (2000, ClickReload)] mount)) = False \<and>
   pending (handle 4000 ClickReload (handle 3000
      (QueryDone PlainFetch (QueryResolved None (Some (ErrorObject ''permission denied''))) ''12:00:03'')
      (run (map_of [])
        [(1000, QueryDone PlainFetch (QueryResolved (Some
            [exampleRow ''E1'' ''MERN'' ''1.0'' 900 ''2025-01-01T00:00:00Z'']) None) ''12:00:01''),
         (2000, ClickReload)] mount))) = [PlainFetch]"
proof -
  let ?st = "run (map_of [])
        [(1000, QueryDone PlainFetch (QueryResolved (Some
            [exampleRow ''E1'' ''MERN'' ''1.0'' 900 ''2025-01-01T00:00:00Z'']) None) ''12:00:01''),
         (2000, ClickReload)] mount"
  let ?denied = "ErrorObject ''permission denied''"
  have h1: "isSubscribed ?st" by code_simp
  have h2: "PlainFetch \<in> set (pending ?st)" by code_simp
  have h3: "QueryResolved None (Some ?denied) = QueryRejected ?denied \<or>
            QueryResolved None (Some ?denied) = QueryResolved None (Some ?denied)" by simp
  have h4: "QueryRejected OtherValue = QueryRejected OtherValue \<or>
            QueryRejected OtherValue = QueryResolved None (Some OtherValue)" by simp
  have l: "leaderboard ?st
             = formattedData (Some [exampleRow ''E1'' ''MERN'' ''1.0'' 900 ''2025-01-01T00:00:00Z''])"
    by code_simp
  have p: "remove1 PlainFetch (pending ?st) @ [PlainFetch] = [PlainFetch]" by code_simp
  from fetch_failure_keeps_dataset [OF h1 h2 h3, of 3000 "''12:00:03''" _ _ 4000]
       fetch_failure_keeps_dataset [OF h1 h2 h4, of 3000 "''12:00:03''"] l p
  show ?thesis by simp
qed

text \<open>
  Claim C7 as stated fails for an \<open>Error\<close> with an empty message: the error cell is
  empty after the failed fetch, as it is when nothing failed, and the page shows no
  message.
\<close>

theorem fetch_failure_empty_message_counterexample:
  "error (handle 3000 (QueryDone PlainFetch (QueryRejected (ErrorObject [])) ''12:00:03'')
      (run (map_of [])
        [(1000, QueryDone PlainFetch (QueryResolved (Some
            [exampleRow ''E1'' ''MERN'' ''1.0'' 900 ''2025-01-01T00:00:00Z'']) None) ''12:00:01''),
         (2000, ClickReload)] mount)) = [] \<and>
   errorBanner (handle 3000 (QueryDone PlainFetch (QueryRejected (ErrorObject [])) ''12:00:03'')
      (run (map_of [])
        [(1000, QueryDone PlainFetch (QueryResolved (Some
            [exampleRow ''E1'' ''MERN'' ''1.0'' 900 ''2025-01-01T00:00:00Z'']) None) ''12:00:01''),
         (2000, ClickReload)] mount)) = None"
  by code_simp

text \<open>
  Claim C10, as the code has it. When a query that the component awaits succeeds, the
  list is replaced by the formatted answer, so by the empty list when the answer has no
  record (or no data). \<open>fetchLeaderboard\<close> sets the time of the last update only when
  the answer has a record: after a fetch that the component started itself an empty
  answer leaves that time as it was. After the fetch that \<open>updateXPData\<close> started,
  \<open>updateXPData\<close> sets it (line 156), whatever the answer. An answer with a record sets
  it in both cases.
\<close>

theorem fetch_success_lastUpdated:
  assumes "isSubscribed st" and "who \<in> set (pending st)"
  shows "leaderboard (handle now (QueryDone who (QueryResolved data None) stamp) st)
           = formattedData data \<and>
         (data = None \<or> data = Some [] \<longrightarrow>
            leaderboard (handle now (QueryDone who (QueryResolved data None) stamp) st) = [] \<and>
            lastUpdated (handle now (QueryDone who (QueryResolved data None) stamp) st)
              = (case who of PlainFetch \<Rightarrow> lastUpdated st | UpdateFetch \<Rightarrow> stamp)) \<and>
         (data = Some rows \<and> rows \<noteq> [] \<longrightarrow>
            lastUpdated (handle now (QueryDone who (QueryResolved data None) stamp) st) = stamp)"
proof -
  let ?st' = "handle now (QueryDone who (QueryResolved data None) stamp) st"
  have h: "?st' = commit now st (react now (QueryDone who (QueryResolved data None) stamp) st)"
    using assms(1) by (simp add: handle_mounted)
  note r = react_QueryDone_success [OF assms(2), of now data stamp]
  have l: "leaderboard ?st' = formattedData data"
    unfolding h r by (simp add: commit_fields split: caller.split)
  have u: "lastUpdated ?st' =
             (case who of
                PlainFetch \<Rightarrow> if formattedData data = [] then lastUpdated st else stamp
              | UpdateFetch \<Rightarrow> stamp)"
    unfolding h r by (simp add: commit_fields split: caller.split)
  have e: "formattedData data = []" if "data = None \<or> data = Some []"
    using that by (auto simp: formattedData_eq_Nil)
  have n: "formattedData data \<noteq> []" if "data = Some rows \<and> rows \<noteq> []"
    using that by (simp add: formattedData_eq_Nil)
  from l u e n show ?thesis by (auto split: caller.split)
qed

text \<open>An empty answer to a Reload, after a first load of one record.\<close>

theorem fetch_success_lastUpdated_witness:
  "leaderboard (handle 3000 (QueryDone PlainFetch (QueryResolved (Some []) None) ''12:00:03'')
      (run (map_of [])
        [(1000, QueryDone PlainFetch (QueryResolved (Some
            [exampleRow ''E1'' ''MERN'' ''1.0'' 900 ''2025-01-01T00:00:00Z'']) None) ''12:00:01''),
         (2000, ClickReload)] mount)) = [] \<and>
   lastUpdated (handle 3000 (QueryDone PlainFetch (QueryResolved (Some []) None) ''12:00:03'')
      (run (map_of [])
        [(1000, QueryDone PlainFetch (QueryResolved (Some
            [exampleRow ''E1'' ''MERN'' ''1.0'' 900 ''2025-01-01T00:00:00Z'']) None) ''12:00:01''),
         (2000, ClickReload)] mount)) = ''12:00:01''"
proof -
  let ?st = "run (map_of [])
        [(1000, QueryDone PlainFetch (QueryResolved (Some
            [exampleRow ''E1'' ''MERN'' ''1.0'' 900 ''2025-01-01T00:00:00Z'']) None) ''12:00:01''),
         (2000, ClickReload)] mount"
  have h1: "isSubscribed ?st" by code_simp
  have h2: "PlainFetch \<in> set (pending ?st)" by code_simp
  have u: "lastUpdated ?st = ''12:00:01''" by code_simp
  from fetch_success_lastUpdated [OF h1 h2, of 3000 "Some []" "''12:00:03''" "[]"] u
  show ?thesis by (simp add: formattedData_def)
qed

text \<open>
  Claim C10 as stated fails after an update job: the refetch is answered with no
  record, and the time of the last update moves from 12:00:01 to 12:00:04.
\<close>

theorem empty_refetch_sets_lastUpdated_counterexample:
  "lastUpdated (run (map_of [])
        [(1000, QueryDone PlainFetch (QueryResolved (Some
            [exampleRow ''E1'' ''MERN'' ''1.0'' 900 ''2025-01-01T00:00:00Z'']) None) ''12:00:01''),
         (2000, ClickRefreshXP),
         (3000, JobDone (JobBody True []))] mount) = ''12:00:01'' \<and>
   leaderboard (run (map_of [])
        [(1000, QueryDone PlainFetch (QueryResolved (Some
            [exampleRow ''E1'' ''MERN'' ''1.0'' 900 ''2025-01-01T00:00:00Z'']) None) ''12:00:01''),
         (2000, ClickRefreshXP),
         (3000, JobDone (JobBody True [])),
         (4000, QueryDone UpdateFetch (QueryResolved (Some []) None) ''12:00:04'')] mount) = [] \<and>
   lastUpdated (run (map_of [])
        [(1000, QueryDone PlainFetch (QueryResolved (Some
            [exampleRow ''E1'' ''MERN'' ''1.0'' 900 ''2025-01-01T00:00:00Z'']) None) ''12:00:01''),
         (2000, ClickRefreshXP),
         (3000, JobDone (JobBody True [])),
         (4000, QueryDone UpdateFetch (QueryResolved (Some []) None) ''12:00:04'')] mount)
     = ''12:00:04''"
  by code_simp

subsection \<open>The update job\<close>

lemma jobThrown_None_iff: "jobThrown out = None \<longleftrightarrow> (\<exists>message. out = JobBody True message)"
  by (cases out) (simp_all add: jobThrown_def)

lemma handle_JobDone_failure:
  assumes "isSubscribed st" and "0 < jobs st" and "jobThrown out = Some err"
  shows "handle now (JobDone out) st =
           st\<lparr>jobs := jobs st - 1, error := errorMessage err ''Failed to update XP data'',
              refreshing := False, updateProgress := (0, 0)\<rparr>"
  using assms by (simp add: handle_mounted updateXPData_response_def commit_unchanged)

lemma handle_JobDone_success:
  assumes "isSubscribed st" and "0 < jobs st" and "jobThrown out = None"
  shows "handle now (JobDone out) st =
           st\<lparr>jobs := jobs st - 1, error := [], pending := pending st @ [UpdateFetch]\<rparr>"
  using assms
  by (simp add: handle_mounted updateXPData_response_def fetchLeaderboard_start_def commit_unchanged)

lemma refreshing_after_UpdateFetch:
  assumes "isSubscribed st" and "UpdateFetch \<in> set (pending st)"
  shows "refreshing (handle now (QueryDone UpdateFetch res stamp) st) = False"
  using assms by (simp add: handle_mounted commit_fields updateXPData_finish_def)

lemma handle_JobDone_failed:
  assumes "isSubscribed st" and "0 < jobs st" and "\<forall>note. out \<noteq> JobBody True note"
  shows "pending (handle now (JobDone out) st) = pending st \<and>
         leaderboard (handle now (JobDone out) st) = leaderboard st \<and>
         refreshing (handle now (JobDone out) st) = False"
proof -
  from assms(3) have "jobThrown out \<noteq> None" by (simp add: jobThrown_None_iff)
  then obtain err where "jobThrown out = Some err" by auto
  from handle_JobDone_failure [OF assms(1,2) this, of now] show ?thesis by simp
qed

lemma error_after_JobDone:
  assumes "isSubscribed st" and "0 < jobs st" and "jobThrown out = Some (ErrorObject message)"
  shows "error (handle now (JobDone out) st) = message"
  using handle_JobDone_failure [OF assms, of now] by (simp add: errorMessage_def)

text \<open>
  Claim C8. The update job succeeds only when its response is \<open>ok\<close> and its JSON says
  \<open>success\<close>. A response that is not \<open>ok\<close> puts \<open>HTTP error! status:\<close> and the status in
  decimal into the error cell; a job that reports failure puts its error text there,
  or \<open>XP update failed\<close> when it gives none; in both cases the page shows the message. A
  request or a JSON body that rejects puts the message of the thrown \<open>Error\<close> there, or
  \<open>Failed to update XP data\<close> for another value. Whenever the job does not succeed, no
  query is sent, the list stays as it was and \<open>refreshing\<close> is false again. When it
  succeeds, one query is sent for \<open>updateXPData\<close>, the list stays as it was until the
  answer, and when that query is answered, whatever the answer, \<open>refreshing\<close> is false
  again.
\<close>

theorem updateXPData_failure_and_cleanup:
  assumes "isSubscribed st" and "0 < jobs st"
  shows "(out = JobHttpError status \<and> decimalText (int (unat status)) tx \<longrightarrow>
            error (handle now (JobDone out) st) = ''HTTP error! status: '' @ tx) \<and>
         (out = JobBody False message \<longrightarrow>
            error (handle now (JobDone out) st)
              = (if message = [] then ''XP update failed'' else message)) \<and>
         (out = JobHttpError status \<or> out = JobBody False message \<longrightarrow>
            errorBanner (handle now (JobDone out) st) = Some (error (handle now (JobDone out) st))) \<and>
         (out = JobRejected err \<or> out = JobJsonRejected err \<longrightarrow>
            error (handle now (JobDone out) st)
              = (case err of ErrorObject msg \<Rightarrow> msg | OtherValue \<Rightarrow> ''Failed to update XP data'')) \<and>
         ((\<forall>note. out \<noteq> JobBody True note) \<longrightarrow>
            pending (handle now (JobDone out) st) = pending st \<and>
            leaderboard (handle now (JobDone out) st) = leaderboard st \<and>
            refreshing (handle now (JobDone out) st) = False) \<and>
         (out = JobBody True message \<longrightarrow>
            pending (handle now (JobDone out) st) = pending st @ [UpdateFetch] \<and>
            leaderboard (handle now (JobDone out) st) = leaderboard st \<and>
            refreshing (handle later (QueryDone UpdateFetch res stamp) (handle now (JobDone out) st))
              = False)"
proof (intro conjI impI)
  assume a: "out = JobHttpError status \<and> decimalText (int (unat status)) tx"
  then have tx: "tx = decimal (unat status)" by (simp add: decimalText_iff decimalInt_def)
  from a have "jobThrown out = Some (ErrorObject (''HTTP error! status: '' @ decimal (unat status)))"
    by (simp add: jobThrown_def)
  from error_after_JobDone [OF assms this, of now] tx
  show "error (handle now (JobDone out) st) = ''HTTP error! status: '' @ tx" by simp
next
  assume a: "out = JobBody False message"
  then have "jobThrown out
               = Some (ErrorObject (if message = [] then ''XP update failed'' else message))"
    by (simp add: jobThrown_def)
  from error_after_JobDone [OF assms this, of now]
  show "error (handle now (JobDone out) st) = (if message = [] then ''XP update failed'' else message)" .
next
  assume a: "out = JobHttpError status \<or> out = JobBody False message"
  then have "\<exists>msg. msg \<noteq> [] \<and> jobThrown out = Some (ErrorObject msg)"
    by (auto simp: jobThrown_def)
  then obtain msg where t: "msg \<noteq> []" and j: "jobThrown out = Some (ErrorObject msg)" by blast
  from error_after_JobDone [OF assms j, of now] t
  show "errorBanner (handle now (JobDone out) st) = Some (error (handle now (JobDone out) st))"
    by (simp add: errorBanner_def)
next
  assume a: "out = JobRejected err \<or> out = JobJsonRejected err"
  then have "jobThrown out = Some err" by (auto simp: jobThrown_def)
  from handle_JobDone_failure [OF assms this, of now]
  show "error (handle now (JobDone out) st)
          = (case err of ErrorObject msg \<Rightarrow> msg | OtherValue \<Rightarrow> ''Failed to update XP data'')"
    by (simp add: errorMessage_def)
next
  assume a: "\<forall>note. out \<noteq> JobBody True note"
  note f = handle_JobDone_failed [OF assms a, of now]
  from f show "pending (handle now (JobDone out) st) = pending st" by simp
  from f show "leaderboard (handle now (JobDone out) st) = leaderboard st" by simp
  from f show "refreshing (handle now (JobDone out) st) = False" by simp
next
  assume a: "out = JobBody True message"
  then have s: "jobThrown out = None" by (simp add: jobThrown_def)
  note h = handle_JobDone_success [OF assms s, of now]
  show "pending (handle now (JobDone out) st) = pending st @ [UpdateFetch]" by (simp add: h)
  show "leaderboard (handle now (JobDone out) st) = leaderboard st" by (simp add: h)
  have "isSubscribed (handle now (JobDone out) st)" using assms(1) by (simp add: h)
  moreover have "UpdateFetch \<in> set (pending (handle now (JobDone out) st))" by (simp add: h)
  ultimately show
    "refreshing (handle later (QueryDone UpdateFetch res stamp) (handle now (JobDone out) st)) = False"
    by (rule refreshing_after_UpdateFetch)
qed

text \<open>
  A Refresh XP click after the first load, answered by a response of status 500; by a
  job that reports failure without a text; and by a job that succeeds, whose query then
  fails.
\<close>

theorem updateXPData_failure_and_cleanup_witness:
  "errorBanner (handle 3000 (JobDone (JobHttpError 500))
      (run (map_of [])
        [(1000, QueryDone PlainFetch (QueryResolved (Some
            [exampleRow ''E1'' ''MERN'' ''1.0'' 900 ''2025-01-01T00:00:00Z'']) None) ''12:00:01''),
         (2000, ClickRefreshXP)] mount)) = Some ''HTTP error! status: 500'' \<and>
   pending (handle 3000 (JobDone (JobHttpError 500))
      (run (map_of [])
        [(1000, QueryDone PlainFetch (QueryResolved (Some
            [exampleRow ''E1'' ''MERN'' ''1.0'' 900 ''2025-01-01T00:00:00Z'']) None) ''12:00:01''),
         (2000, ClickRefreshXP)] mount)) = [] \<and>
   refreshing (handle 3000 (JobDone (JobHttpError 500))
      (run (map_of [])
        [(1000, QueryDone PlainFetch (QueryResolved (Some
            [exampleRow ''E1'' ''MERN'' ''1.0'' 900 ''2025-01-01T00:00:00Z'']) None) ''12:00:01''),
         (2000, ClickRefreshXP)] mount)) = False \<and>
   errorBanner (handle 3000 (JobDone (JobBody False []))
      (run (map_of [])
        [(1000, QueryDone PlainFetch (QueryResolved (Some
            [exampleRow ''E1'' ''MERN'' ''1.0'' 900 ''2025-01-01T00:00:00Z'']) None) ''12:00:01''),
         (2000, ClickRefreshXP)] mount)) = Some ''XP update failed'' \<and>
   pending (handle 3000 (JobDone (JobBody True []))
      (run (map_of [])
        [(1000, QueryDone PlainFetch (QueryResolved (Some
            [exampleRow ''E1'' ''MERN'' ''1.0'' 900 ''2025-01-01T00:00:00Z'']) None) ''12:00:01''),
         (2000, ClickRefreshXP)] mount)) = [UpdateFetch] \<and>
   refreshing (handle 4000 (QueryDone UpdateFetch (QueryRejected OtherValue) ''12:00:04'')
     (handle 3000 (JobDone (JobBody True []))
      (run (map_of [])
        [(1000, QueryDone PlainFetch (QueryResolved (Some
            [exampleRow ''E1'' ''MERN'' ''1.0'' 900 ''2025-01-01T00:00:00Z'']) None) ''12:00:01''),
         (2000, ClickRefreshXP)] mount))) = False"
proof -
  let ?st = "run (map_of [])
        [(1000, QueryDone PlainFetch (QueryResolved (Some
            [exampleRow ''E1'' ''MERN'' ''1.0'' 900 ''2025-01-01T00:00:00Z'']) None) ''12:00:01''),
         (2000, ClickRefreshXP)] mount"
  have h1: "isSubscribed ?st" by code_simp
  have h2: "0 < jobs ?st" by code_simp
  have d: "decimalText (int (unat (500 :: 16 word))) ''500''" by code_simp
  have n: "\<forall>note. JobHttpError 500 \<noteq> JobBody True note" by simp
  have p: "pending ?st = []" by code_simp
  from updateXPData_failure_and_cleanup [OF h1 h2, of "JobHttpError 500" 500 "''500''" 3000]
       updateXPData_failure_and_cleanup [OF h1 h2, of "JobBody False []" _ _ 3000 "[]"]
       updateXPData_failure_and_cleanup [OF h1 h2, of "JobBody True []" _ _ 3000 "[]"]
       d n p
  show ?thesis by simp
qed

subsection \<open>One fetch at a time\<close>

text \<open>
  Claim C3, as the code has it. What gates a refresh request is the \<open>loading\<close> flag, not
  the queries in flight. While \<open>loading\<close> is true a Reload click, a Refresh XP click and
  a change notification change nothing. While it is false a Reload click sets it and
  sends one query, and a second click right after the first is ignored. The flag is
  true from the first render, with the query of the initial load; the start of a fetch
  without the loading indicator (by the debounce timer, or by \<open>updateXPData\<close> after its
  job) sends a query and leaves the flag as it is; and the answer to any query that the
  component awaits, whoever sent it, clears the flag.
\<close>

theorem loading_gates_refresh_requests:
  assumes "isSubscribed st"
  shows "(loading st \<longrightarrow>
            handle now ClickReload st = st \<and> handle now ClickRefreshXP st = st \<and>
            handle now Notify st = st) \<and>
         (\<not> loading st \<longrightarrow>
            loading (handle now ClickReload st) \<and>
            pending (handle now ClickReload st) = pending st @ [PlainFetch] \<and>
            handle later ClickReload (handle now ClickReload st) = handle now ClickReload st) \<and>
         loading mount \<and> pending mount = [PlainFetch] \<and>
         loading (fetchLeaderboard_start False who st) = loading st \<and>
         pending (fetchLeaderboard_start False who st) = pending st @ [who] \<and>
         (who \<in> set (pending st) \<longrightarrow>
            loading (handle now (QueryDone who res stamp) st) = False)"
proof (intro conjI impI)
  assume l: "loading st"
  show "handle now ClickReload st = st" using assms l by (simp add: handle_mounted commit_same)
  show "handle now ClickRefreshXP st = st" using assms l by (simp add: handle_mounted commit_same)
  show "handle now Notify st = st" using assms l by (simp add: handle_mounted commit_same)
next
  assume l: "\<not> loading st"
  let ?st1 = "handle now ClickReload st"
  show l1: "loading ?st1"
    using assms l by (simp add: handle_mounted commit_fields fetchLeaderboard_start_def)
  show "pending ?st1 = pending st @ [PlainFetch]"
    using assms l by (simp add: handle_mounted commit_fields fetchLeaderboard_start_def)
  have "isSubscribed ?st1"
    using assms l by (simp add: handle_mounted commit_fields fetchLeaderboard_start_def)
  then show "handle later ClickReload ?st1 = ?st1"
    using l1 by (simp add: handle_mounted commit_same)
next
  show "loading mount" by (simp add: mount_def)
  show "pending mount = [PlainFetch]" by (simp add: mount_def)
  show "loading (fetchLeaderboard_start False who st) = loading st"
    by (simp add: fetchLeaderboard_start_def)
  show "pending (fetchLeaderboard_start False who st) = pending st @ [who]"
    by (simp add: fetchLeaderboard_start_def)
next
  assume "who \<in> set (pending st)"
  with assms show "loading (handle now (QueryDone who res stamp) st) = False"
    by (rule loading_after_QueryDone)
qed

text \<open>
  Two Reload clicks after the first load, a Reload click during it, and the answer to
  the first load.
\<close>

theorem loading_gates_refresh_requests_witness:
  "loading (handle 2000 ClickReload
      (handle 1000 (QueryDone PlainFetch (QueryResolved (Some []) None) ''12:00:01'') mount)) \<and>
   pending (handle 2000 ClickReload
      (handle 1000 (QueryDone PlainFetch (QueryResolved (Some []) None) ''12:00:01'') mount))
     = [PlainFetch] \<and>
   pending (handle 2001 ClickReload (handle 2000 ClickReload
      (handle 1000 (QueryDone PlainFetch (QueryResolved (Some []) None) ''12:00:01'') mount)))
     = [PlainFetch] \<and>
   handle 500 ClickReload mount = mount \<and>
   loading (handle 1000 (QueryDone PlainFetch (QueryResolved (Some []) None) ''12:00:01'') mount)
     = False"
proof -
  let ?st = "handle 1000 (QueryDone PlainFetch (QueryResolved (Some []) None) ''12:00:01'') mount"
  have h1: "isSubscribed ?st" by code_simp
  have h2: "\<not> loading ?st" by code_simp
  have p: "pending ?st = []" by code_simp
  have m1: "isSubscribed mount" by (simp add: mount_def)
  have m2: "loading mount" by (simp add: mount_def)
  have m3: "PlainFetch \<in> set (pending mount)" by (simp add: mount_def)
  from loading_gates_refresh_requests [OF h1, of 2000 2001]
       loading_gates_refresh_requests
         [OF m1, of 500 _ PlainFetch "QueryResolved (Some []) None" "''12:00:01''"]
       h2 p m2 m3
  show ?thesis by simp
qed

text \<open>
  Claim C3 as stated fails: after a successful update job its query is in flight with
  \<open>loading\<close> false, and a Reload click sends a second query.
\<close>

theorem overlapping_fetches_counterexample:
  "pending (run (map_of [])
           [(1000, QueryDone PlainFetch (QueryResolved (Some []) None) ''12:00:01''),
            (2000, ClickRefreshXP),
            (3000, JobDone (JobBody True [])),
            (3500, ClickReload)] mount) = [UpdateFetch, PlainFetch]"
  by code_simp

subsection \<open>Timers\<close>

lemma fireDebounce_fields:
  "loading (fireDebounce st) = loading st"
  "isSubscribed (fireDebounce st) = isSubscribed st"
  "leaderboard (fireDebounce st) = leaderboard st"
  "autoTimer (fireDebounce st) = autoTimer st"
  "jobs (fireDebounce st) = jobs st"
  "refreshing (fireDebounce st) = refreshing st"
  "debounceTimer (fireDebounce st) = None"
  "pending (fireDebounce st) = (if isSubscribed st then pending st @ [PlainFetch] else pending st)"
  by (simp_all add: fireDebounce_def fetchLeaderboard_start_def Let_def)

lemma fireAuto_fields:
  "loading (fireAuto P now st) = loading st"
  "isSubscribed (fireAuto P now st) = isSubscribed st"
  "leaderboard (fireAuto P now st) = leaderboard st"
  "debounceTimer (fireAuto P now st) = debounceTimer st"
  "pending (fireAuto P now st) = pending st"
  "autoTimer (fireAuto P now st) = None"
  by (simp_all add: fireAuto_def updateXPData_start_def Let_def split: option.split)

lemma fireAuto_jobs:
  "autoTimer st = Some (d, lb) \<Longrightarrow>
     jobs (fireAuto P now st) = (if checkAutoUpdate P now lb then Suc (jobs st) else jobs st)"
  "autoTimer st = Some (d, lb) \<Longrightarrow>
     refreshing (fireAuto P now st) = (checkAutoUpdate P now lb \<or> refreshing st)"
  by (simp_all add: fireAuto_def updateXPData_start_def Let_def)

lemma advanceDebounce_fields:
  "loading (advanceDebounce t st) = loading st"
  "isSubscribed (advanceDebounce t st) = isSubscribed st"
  "leaderboard (advanceDebounce t st) = leaderboard st"
  "autoTimer (advanceDebounce t st) = autoTimer st"
  "jobs (advanceDebounce t st) = jobs st"
  "refreshing (advanceDebounce t st) = refreshing st"
  by (simp_all add: advanceDebounce_def fireDebounce_fields split: option.split)

lemma advanceAuto_fields:
  "loading (advanceAuto P t st) = loading st"
  "isSubscribed (advanceAuto P t st) = isSubscribed st"
  "leaderboard (advanceAuto P t st) = leaderboard st"
  "pending (advanceAuto P t st) = pending st"
  "debounceTimer (advanceAuto P t st) = debounceTimer st"
  by (simp_all add: advanceAuto_def fireAuto_fields split: option.split prod.split)

lemma advance_fields:
  "loading (advance P t st) = loading st"
  "isSubscribed (advance P t st) = isSubscribed st"
  "leaderboard (advance P t st) = leaderboard st"
  by (simp_all add: advance_def advanceDebounce_fields advanceAuto_fields)

lemma advance_pending:
  "pending (advance P t st) = pending (advanceDebounce t st)"
  "debounceTimer (advance P t st) = debounceTimer (advanceDebounce t st)"
  by (simp_all add: advance_def advanceAuto_fields)

lemma advance_debounce_none:
  "debounceTimer st = None \<Longrightarrow>
     pending (advance P t st) = pending st \<and> debounceTimer (advance P t st) = None"
  by (simp add: advance_pending advanceDebounce_def)

lemma advance_debounce_early:
  "debounceTimer st = Some d \<Longrightarrow> t < d \<Longrightarrow>
     pending (advance P t st) = pending st \<and> debounceTimer (advance P t st) = Some d"
  by (simp add: advance_pending advanceDebounce_def)

lemma advance_debounce_due:
  "debounceTimer st = Some d \<Longrightarrow> d \<le> t \<Longrightarrow> isSubscribed st \<Longrightarrow>
     pending (advance P t st) = pending st @ [PlainFetch] \<and> debounceTimer (advance P t st) = None"
  by (simp add: advance_pending advanceDebounce_def fireDebounce_fields)

lemma step_Notify:
  assumes "isSubscribed st" and "\<not> loading st"
  shows "isSubscribed (step P (t, Notify) st) \<and> \<not> loading (step P (t, Notify) st) \<and>
         debounceTimer (step P (t, Notify) st) = Some (t + 2000) \<and>
         pending (step P (t, Notify) st) = pending (advance P t st)"
  using assms
  by (simp add: step_def handle_mounted advance_fields commit_unchanged)

lemma burst_simps: "burst [] = []" "burst (t # ts) = (t, Notify) # burst ts"
  by (simp_all add: burst_def)

lemma run_burst:
  assumes "isSubscribed st" and "\<not> loading st" and "debounceTimer st = Some (t0 + 2000)"
    and "sorted (t0 # ts)" and "\<forall>u \<in> set ts. u < t0 + 2000"
  shows "isSubscribed (run P (burst ts) st) \<and>
         \<not> loading (run P (burst ts) st) \<and>
         debounceTimer (run P (burst ts) st) = Some (last (t0 # ts) + 2000) \<and>
         pending (run P (burst ts) st) = pending st"
  using assms
proof (induction ts arbitrary: st t0)
  case Nil
  then show ?case by (simp add: burst_simps)
next
  case (Cons t ts)
  let ?s1 = "step P (t, Notify) st"
  from Cons.prems have early: "t < t0 + 2000" by simp
  have n: "isSubscribed ?s1 \<and> \<not> loading ?s1 \<and> debounceTimer ?s1 = Some (t + 2000) \<and>
           pending ?s1 = pending (advance P t st)"
    using Cons.prems(1,2) by (rule step_Notify)
  have p: "pending (advance P t st) = pending st"
    using advance_debounce_early [OF Cons.prems(3) early] by simp
  have srt: "sorted (t # ts)" using Cons.prems(4) by simp
  have win: "\<forall>u \<in> set ts. u < t + 2000"
  proof
    fix u assume "u \<in> set ts"
    then have "u < t0 + 2000" using Cons.prems(5) by simp
    moreover have "t0 \<le> t" using Cons.prems(4) by simp
    ultimately show "u < t + 2000" by simp
  qed
  from n have a: "isSubscribed ?s1" and b: "\<not> loading ?s1" and c: "debounceTimer ?s1 = Some (t + 2000)"
    by simp_all
  from Cons.IH [OF a b c srt win] n p show ?case by (simp add: burst_simps)
qed

lemma unmount_quiet:
  "pending (advance P T (unmount st)) = pending st"
  by (simp add: advance_pending advanceDebounce_def unmount_def)

subsection \<open>Debouncing\<close>

lemma commit_clears_debounce:
  "loading new \<noteq> loading old \<Longrightarrow> debounceTimer (commit now old new) = None"
  by (simp add: commit_def Let_def)

text \<open>
  Claim C6, as the code has it. Take a mounted component whose \<open>loading\<close> flag is false
  and which has no debounce timer, and a burst of one or more change notifications, in
  the order of their times, all less than 2 seconds after the first. During the burst
  no query is sent, and after it the one debounce timer stands 2 seconds after the last
  notification. If nothing else happens, no query is sent before that time, exactly one
  is at that time, and none after it. A Reload click before that time sets \<open>loading\<close>,
  which clears the timer: only the query of the Reload is sent, then and later. No query
  is sent if the component is unmounted first. A notification that arrives while
  \<open>loading\<close> is true changes nothing. Queries already in flight play no part.
\<close>

theorem debounce_collapses_burst:
  assumes "isSubscribed st" and "\<not> loading st" and "debounceTimer st = None"
    and "sorted (t1 # ts)" and "\<forall>u \<in> set ts. u < t1 + 2000"
  shows "pending (run P (burst (t1 # ts)) st) = pending st \<and>
         debounceTimer (run P (burst (t1 # ts)) st) = Some (last (t1 # ts) + 2000) \<and>
         (T < last (t1 # ts) + 2000 \<longrightarrow>
            pending (advance P T (run P (burst (t1 # ts)) st)) = pending st) \<and>
         (last (t1 # ts) + 2000 \<le> T \<longrightarrow>
            pending (advance P T (run P (burst (t1 # ts)) st))
              = pending st @ [PlainFetch] \<and>
            pending (advance P T' (advance P T (run P (burst (t1 # ts)) st)))
              = pending st @ [PlainFetch]) \<and>
         (T1 < last (t1 # ts) + 2000 \<longrightarrow>
            debounceTimer (step P (T1, ClickReload) (run P (burst (t1 # ts)) st)) = None \<and>
            pending (step P (T1, ClickReload) (run P (burst (t1 # ts)) st))
              = pending st @ [PlainFetch] \<and>
            pending (advance P T (step P (T1, ClickReload) (run P (burst (t1 # ts)) st)))
              = pending st @ [PlainFetch]) \<and>
         pending (advance P T (handle T0 Unmount (run P (burst (t1 # ts)) st)))
           = pending st \<and>
         (isSubscribed s \<and> loading s \<longrightarrow> handle T Notify s = s)"
proof -
  let ?s1 = "step P (t1, Notify) st"
  let ?st' = "run P (burst (t1 # ts)) st"
  let ?quiet = "last (t1 # ts) + 2000"
  have n: "isSubscribed ?s1 \<and> \<not> loading ?s1 \<and> debounceTimer ?s1 = Some (t1 + 2000) \<and>
           pending ?s1 = pending (advance P t1 st)"
    using assms(1,2) by (rule step_Notify)
  then have a: "isSubscribed ?s1" and b: "\<not> loading ?s1" and c: "debounceTimer ?s1 = Some (t1 + 2000)"
    by simp_all
  have p1: "pending ?s1 = pending st"
    using n advance_debounce_none [OF assms(3), of P t1] by simp
  have r: "?st' = run P (burst ts) ?s1" by (simp add: burst_simps)
  note bs = run_burst [OF a b c assms(4,5), of P, folded r]
  from bs have sub: "isSubscribed ?st'" and nl: "\<not> loading ?st'"
    and tm: "debounceTimer ?st' = Some ?quiet" and pe: "pending ?st' = pending st"
    using p1 by simp_all
  have early: "pending (advance P T ?st') = pending st" if "T < ?quiet"
    using advance_debounce_early [OF tm that, of P] pe by simp
  have due: "pending (advance P T ?st') = pending st @ [PlainFetch] \<and>
             debounceTimer (advance P T ?st') = None" if "?quiet \<le> T"
    using advance_debounce_due [OF tm that sub, of P] pe by simp
  have after: "pending (advance P T' (advance P T ?st')) = pending st @ [PlainFetch]" if "?quiet \<le> T"
    using due [OF that] advance_debounce_none [of "advance P T ?st'" P T'] by simp
  have reload: "debounceTimer (step P (T1, ClickReload) ?st') = None \<and>
                pending (step P (T1, ClickReload) ?st') = pending st @ [PlainFetch] \<and>
                pending (advance P T (step P (T1, ClickReload) ?st')) = pending st @ [PlainFetch]"
    if "T1 < ?quiet"
  proof -
    let ?s2 = "advance P T1 ?st'"
    let ?s3 = "step P (T1, ClickReload) ?st'"
    have p2: "pending ?s2 = pending st"
      using advance_debounce_early [OF tm that, of P] pe by simp
    have l2: "\<not> loading ?s2" and m2: "isSubscribed ?s2"
      using nl sub by (simp_all add: advance_fields)
    have s3: "?s3 = commit T1 ?s2 (fetchLeaderboard_start True PlainFetch ?s2)"
      using l2 m2 by (simp add: step_def handle_mounted)
    have "loading (fetchLeaderboard_start True PlainFetch ?s2) \<noteq> loading ?s2"
      using l2 by (simp add: fetchLeaderboard_start_def)
    then have d: "debounceTimer ?s3 = None"
      unfolding s3 by (rule commit_clears_debounce)
    have p3: "pending ?s3 = pending st @ [PlainFetch]"
      unfolding s3 by (simp add: commit_fields fetchLeaderboard_start_def p2)
    from advance_debounce_none [OF d, of P T] d p3 show ?thesis by simp
  qed
  have um: "pending (advance P T (handle T0 Unmount ?st')) = pending st"
    using sub pe by (simp add: handle_def unmount_quiet)
  have ld: "isSubscribed s \<and> loading s \<longrightarrow> handle T Notify s = s"
    by (simp add: handle_mounted commit_same)
  from pe tm early due after reload um ld show ?thesis by blast
qed

text \<open>
  Three notifications within 1.9 seconds, after the first load; and the same with a
  Reload click 0.1 seconds after the last of them.
\<close>

theorem debounce_collapses_burst_witness:
  "pending (run (map_of []) (burst [2000, 2500, 3900])
      (step (map_of []) (1000, QueryDone PlainFetch (QueryResolved (Some []) None) ''12:00:01'') mount)) = [] \<and>
   pending (advance (map_of []) 5899
     (run (map_of []) (burst [2000, 2500, 3900])
      (step (map_of []) (1000, QueryDone PlainFetch (QueryResolved (Some []) None) ''12:00:01'') mount))) = [] \<and>
   pending (advance (map_of []) 5900
     (run (map_of []) (burst [2000, 2500, 3900])
      (step (map_of []) (1000, QueryDone PlainFetch (QueryResolved (Some []) None) ''12:00:01'') mount))) = [PlainFetch] \<and>
   pending (advance (map_of []) 5900
     (step (map_of []) (4000, ClickReload)
       (run (map_of []) (burst [2000, 2500, 3900])
        (step (map_of []) (1000, QueryDone PlainFetch (QueryResolved (Some []) None) ''12:00:01'') mount)))) = [PlainFetch]"
proof -
  let ?P = "map_of [] :: string \<Rightarrow> int option"
  let ?st = "step ?P (1000, QueryDone PlainFetch (QueryResolved (Some []) None) ''12:00:01'') mount"
  have h1: "isSubscribed ?st" by code_simp
  have h2: "\<not> loading ?st" by code_simp
  have h3: "debounceTimer ?st = None" by code_simp
  have h4: "sorted (2000 # [2500, 3900 :: int])" by simp
  have h5: "\<forall>u \<in> set [2500, 3900 :: int]. u < 2000 + 2000" by simp
  have p: "pending ?st = []" by code_simp
  from debounce_collapses_burst [OF h1 h2 h3 h4 h5, of ?P 5899]
       debounce_collapses_burst [OF h1 h2 h3 h4 h5, of ?P 5900 _ 4000] p
  show ?thesis by simp
qed

text \<open>
  Claim C6 as stated fails: the refetch of a first notification is still in flight when
  a second notification comes, and 2 seconds later a second refetch is sent.
\<close>

theorem debounce_fires_during_fetch_counterexample:
  "pending (run (map_of [])
      [(1000, QueryDone PlainFetch (QueryResolved (Some []) None) ''12:00:01''),
       (2000, Notify), (4500, Notify)] mount) = [PlainFetch] \<and>
   pending (advance (map_of []) 6500 (run (map_of [])
      [(1000, QueryDone PlainFetch (QueryResolved (Some []) None) ''12:00:01''),
       (2000, Notify), (4500, Notify)] mount)) = [PlainFetch, PlainFetch]"
  by code_simp

subsection \<open>The staleness check\<close>

lemma hours_ge_24: "(24 \<le> real_of_int x / (1000 * 60 * 60)) \<longleftrightarrow> 86400000 \<le> x"
proof -
  have "(24 \<le> real_of_int x / (1000 * 60 * 60)) \<longleftrightarrow> (real_of_int 86400000 \<le> real_of_int x)"
    by (simp add: field_simps)
  also have "\<dots> \<longleftrightarrow> 86400000 \<le> x" by (simp only: of_int_le_iff)
  finally show ?thesis .
qed

lemma checkAutoUpdate_head:
  "last_updated e \<noteq> [] \<Longrightarrow>
     checkAutoUpdate P now (e # rest) =
       (case P (last_updated e) of None \<Rightarrow> False | Some ms \<Rightarrow> 86400000 \<le> now - ms)"
  unfolding checkAutoUpdate_def Let_def hours_ge_24 by (simp split: option.split)

lemma react_autoTimer: "autoTimer (react now ev st) = autoTimer st"
  by (cases ev)
     (simp_all add: fetchLeaderboard_start_def fetchLeaderboard_resume_def updateXPData_start_def
        updateXPData_response_def updateXPData_finish_def Let_def
        split: caller.split option.split)

lemma handle_autoTimer:
  assumes "isSubscribed st" and "ev \<noteq> Unmount"
  shows "autoTimer (handle now ev st) =
           (if autoUpdateKey (leaderboard (handle now ev st)) = autoUpdateKey (leaderboard st)
            then autoTimer st
            else if leaderboard (handle now ev st) = [] then None
            else Some (now + 3000, leaderboard (handle now ev st)))"
proof -
  have h: "handle now ev st = commit now st (react now ev st)"
    using assms by (rule handle_mounted)
  show ?thesis
    unfolding h by (auto simp: commit_def Let_def react_autoTimer)
qed

lemma advanceDebounce_auto:
  "autoTimer (advanceDebounce t st) = autoTimer st" "jobs (advanceDebounce t st) = jobs st"
  by (simp_all add: advanceDebounce_fields)

lemma advance_auto_early:
  "autoTimer st = Some (d, lb) \<Longrightarrow> T < d \<Longrightarrow>
     jobs (advance P T st) = jobs st \<and> autoTimer (advance P T st) = Some (d, lb)"
  by (simp add: advance_def advanceAuto_def advanceDebounce_auto)

lemma advance_auto_none:
  "autoTimer st = None \<Longrightarrow> jobs (advance P T st) = jobs st \<and> autoTimer (advance P T st) = None"
  by (simp add: advance_def advanceAuto_def advanceDebounce_auto)

lemma advance_auto_due:
  "autoTimer st = Some (d, lb) \<Longrightarrow> d \<le> T \<Longrightarrow>
     jobs (advance P T st) = (if checkAutoUpdate P d lb then Suc (jobs st) else jobs st) \<and>
     autoTimer (advance P T st) = None"
  by (simp add: advance_def advanceAuto_def advanceDebounce_auto fireAuto_fields fireAuto_jobs)

text \<open>
  Claim C2, as the code has it. An event that makes the empty list non-empty arms the
  staleness check for 3 seconds later; an event that leaves the key of the effect as
  it is (\<open>null\<close> for an empty list, the update time of the first entry otherwise)
  leaves the check as it is, armed or not. An armed check does nothing before its time;
  at its time it runs, once, and calls \<open>updateXPData\<close> exactly when the time elapsed
  since the update time of the first entry of the list is at least 24 hours.
\<close>

theorem staleness_check_arming_and_firing:
  assumes "isSubscribed st" and "ev \<noteq> Unmount"
  shows "(leaderboard st = [] \<and> leaderboard (handle now ev st) \<noteq> [] \<longrightarrow>
            autoTimer (handle now ev st) = Some (now + 3000, leaderboard (handle now ev st))) \<and>
         (autoUpdateKey (leaderboard (handle now ev st)) = autoUpdateKey (leaderboard st) \<longrightarrow>
            autoTimer (handle now ev st) = autoTimer st) \<and>
         (autoTimer s = Some (d, lb) \<longrightarrow>
            (T < d \<longrightarrow> jobs (advance P T s) = jobs s \<and> autoTimer (advance P T s) = Some (d, lb)) \<and>
            (d \<le> T \<longrightarrow>
               jobs (advance P T s) = (if checkAutoUpdate P d lb then Suc (jobs s) else jobs s) \<and>
               autoTimer (advance P T s) = None \<and>
               jobs (advance P T' (advance P T s)) = jobs (advance P T s))) \<and>
         (last_updated e \<noteq> [] \<longrightarrow>
            checkAutoUpdate P t (e # rest) =
              (case P (last_updated e) of None \<Rightarrow> False | Some ms \<Rightarrow> 24 * 3600000 \<le> t - ms))"
proof (intro conjI impI)
  assume "leaderboard st = [] \<and> leaderboard (handle now ev st) \<noteq> []"
  then have "autoUpdateKey (leaderboard (handle now ev st)) \<noteq> autoUpdateKey (leaderboard st)"
    and "leaderboard (handle now ev st) \<noteq> []"
    by (simp_all add: autoUpdateKey_def split: list.split)
  with handle_autoTimer [OF assms, of now]
  show "autoTimer (handle now ev st) = Some (now + 3000, leaderboard (handle now ev st))"
    by simp
next
  assume "autoUpdateKey (leaderboard (handle now ev st)) = autoUpdateKey (leaderboard st)"
  with handle_autoTimer [OF assms, of now]
  show "autoTimer (handle now ev st) = autoTimer st" by simp
next
  assume a: "autoTimer s = Some (d, lb)" and e: "T < d"
  from advance_auto_early [OF a e, of P]
  show "jobs (advance P T s) = jobs s" and "autoTimer (advance P T s) = Some (d, lb)" by simp_all
next
  assume a: "autoTimer s = Some (d, lb)" and e: "d \<le> T"
  note due = advance_auto_due [OF a e, of P]
  from due show "jobs (advance P T s) = (if checkAutoUpdate P d lb then Suc (jobs s) else jobs s)"
    by simp
  from due show n: "autoTimer (advance P T s) = None" by simp
  from advance_auto_none [OF n, of P T']
  show "jobs (advance P T' (advance P T s)) = jobs (advance P T s)" by simp
next
  assume "last_updated e \<noteq> []"
  then show "checkAutoUpdate P t (e # rest) =
              (case P (last_updated e) of None \<Rightarrow> False | Some ms \<Rightarrow> 24 * 3600000 \<le> t - ms)"
    by (simp add: checkAutoUpdate_head split: option.split)
qed

text \<open>
  A first load of one record updated 25 hours before: the check is armed for 3 seconds
  later, does nothing 1 millisecond before that, and then starts the update job. With
  the same record updated 23 hours before, it starts none.
\<close>

theorem staleness_check_arming_and_firing_witness:
  "autoTimer (handle 1735779600000
       (QueryDone PlainFetch
          (QueryResolved (Some [exampleRow ''E1'' ''MERN'' ''1.0'' 900 ''2025-01-01T00:00:00Z'']) None)
          ''1/2/2025, 1:00:00 AM'') mount)
     = Some (1735779603000,
             formattedData (Some [exampleRow ''E1'' ''MERN'' ''1.0'' 900 ''2025-01-01T00:00:00Z''])) \<and>
   jobs (advance (map_of [(''2025-01-01T00:00:00Z'', 1735689600000)]) 1735779602999
     (handle 1735779600000
       (QueryDone PlainFetch
          (QueryResolved (Some [exampleRow ''E1'' ''MERN'' ''1.0'' 900 ''2025-01-01T00:00:00Z'']) None)
          ''1/2/2025, 1:00:00 AM'') mount)) = 0 \<and>
   jobs (advance (map_of [(''2025-01-01T00:00:00Z'', 1735689600000)]) 1735779603000
     (handle 1735779600000
       (QueryDone PlainFetch
          (QueryResolved (Some [exampleRow ''E1'' ''MERN'' ''1.0'' 900 ''2025-01-01T00:00:00Z'']) None)
          ''1/2/2025, 1:00:00 AM'') mount)) = 1 \<and>
   jobs (advance (map_of [(''2025-01-01T00:00:00Z'', 1735696800000)]) 1735779603000
     (handle 1735779600000
       (QueryDone PlainFetch
          (QueryResolved (Some [exampleRow ''E1'' ''MERN'' ''1.0'' 900 ''2025-01-01T00:00:00Z'']) None)
          ''1/2/2025, 1:00:00 AM'') mount)) = 0"
proof -
  let ?ev = "QueryDone PlainFetch
          (QueryResolved (Some [exampleRow ''E1'' ''MERN'' ''1.0'' 900 ''2025-01-01T00:00:00Z'']) None)
          ''1/2/2025, 1:00:00 AM''"
  let ?lb = "formattedData (Some [exampleRow ''E1'' ''MERN'' ''1.0'' 900 ''2025-01-01T00:00:00Z''])"
  let ?s = "handle 1735779600000 ?ev mount"
  let ?P = "map_of [(''2025-01-01T00:00:00Z'', 1735689600000 :: int)]"
  let ?Q = "map_of [(''2025-01-01T00:00:00Z'', 1735696800000 :: int)]"
  have h1: "isSubscribed mount" by (simp add: mount_def)
  have h2: "?ev \<noteq> Unmount" by simp
  have l: "leaderboard ?s = ?lb" by code_simp
  have k: "leaderboard mount = []" by code_simp
  have ne: "?lb \<noteq> []" by code_simp
  have j: "jobs ?s = 0" by code_simp
  have stale: "checkAutoUpdate ?P 1735779603000 ?lb" by code_simp
  have fresh: "\<not> checkAutoUpdate ?Q 1735779603000 ?lb" by code_simp
  have a: "autoTimer ?s = Some (1735779603000, ?lb)"
    using staleness_check_arming_and_firing [OF h1 h2, of 1735779600000] l k ne by simp
  from staleness_check_arming_and_firing [OF h1 h2, of 1735779600000 ?s 1735779603000 ?lb 1735779602999 ?P]
       staleness_check_arming_and_firing [OF h1 h2, of 1735779600000 ?s 1735779603000 ?lb 1735779603000 ?P]
       staleness_check_arming_and_firing [OF h1 h2, of 1735779600000 ?s 1735779603000 ?lb 1735779603000 ?Q]
       a j stale fresh
  show ?thesis by simp
qed

text \<open>
  Claim C2 as stated fails twice. The first entry of two was updated 25 hours ago, the
  second 1 hour ago: the check starts the update job, though a check of the more recent
  entry would not. Then a reload brings the first entry with another update time, 24.5
  hours old: the list was never empty, and a second check starts a second update job.
\<close>

theorem staleness_check_refires_counterexample:
  "length (leaderboard (run
      (map_of [(''2025-01-01T00:00:00Z'', 1735689600000), (''2025-01-01T00:30:00Z'', 1735691400000),
               (''2025-01-02T00:00:00Z'', 1735776000000)])
      [(1735779600000, QueryDone PlainFetch (QueryResolved (Some
           [exampleRow ''E1'' ''MERN'' ''1.0'' 900 ''2025-01-01T00:00:00Z'',
            exampleRow ''E2'' ''MERN'' ''1.0'' 500 ''2025-01-02T00:00:00Z'']) None) ''1/2/2025, 1:00:00 AM''),
       (1735779603500, ClickReload)] mount)) = 2 \<and>
   jobs (run
      (map_of [(''2025-01-01T00:00:00Z'', 1735689600000), (''2025-01-01T00:30:00Z'', 1735691400000),
               (''2025-01-02T00:00:00Z'', 1735776000000)])
      [(1735779600000, QueryDone PlainFetch (QueryResolved (Some
           [exampleRow ''E1'' ''MERN'' ''1.0'' 900 ''2025-01-01T00:00:00Z'',
            exampleRow ''E2'' ''MERN'' ''1.0'' 500 ''2025-01-02T00:00:00Z'']) None) ''1/2/2025, 1:00:00 AM''),
       (1735779603500, ClickReload)] mount) = 1 \<and>
   checkAutoUpdate
      (map_of [(''2025-01-01T00:00:00Z'', 1735689600000), (''2025-01-01T00:30:00Z'', 1735691400000),
               (''2025-01-02T00:00:00Z'', 1735776000000)])
      1735779603000
      (formattedData (Some [exampleRow ''E2'' ''MERN'' ''1.0'' 500 ''2025-01-02T00:00:00Z''])) = False \<and>
   length (leaderboard (run
      (map_of [(''2025-01-01T00:00:00Z'', 1735689600000), (''2025-01-01T00:30:00Z'', 1735691400000),
               (''2025-01-02T00:00:00Z'', 1735776000000)])
      [(1735779600000, QueryDone PlainFetch (QueryResolved (Some
           [exampleRow ''E1'' ''MERN'' ''1.0'' 900 ''2025-01-01T00:00:00Z'',
            exampleRow ''E2'' ''MERN'' ''1.0'' 500 ''2025-01-02T00:00:00Z'']) None) ''1/2/2025, 1:00:00 AM''),
       (1735779603500, ClickReload),
       (1735779604000, QueryDone PlainFetch (QueryResolved (Some
           [exampleRow ''E1'' ''MERN'' ''1.0'' 900 ''2025-01-01T00:30:00Z'',
            exampleRow ''E2'' ''MERN'' ''1.0'' 500 ''2025-01-02T00:00:00Z'']) None) ''1/2/2025, 1:00:04 AM'')]
      mount)) = 2 \<and>
   jobs (advance
      (map_of [(''2025-01-01T00:00:00Z'', 1735689600000), (''2025-01-01T00:30:00Z'', 1735691400000),
               (''2025-01-02T00:00:00Z'', 1735776000000)])
      1735779607000
      (run
      (map_of [(''2025-01-01T00:00:00Z'', 1735689600000), (''2025-01-01T00:30:00Z'', 1735691400000),
               (''2025-01-02T00:00:00Z'', 1735776000000)])
      [(1735779600000, QueryDone PlainFetch (QueryResolved (Some
           [exampleRow ''E1'' ''MERN'' ''1.0'' 900 ''2025-01-01T00:00:00Z'',
            exampleRow ''E2'' ''MERN'' ''1.0'' 500 ''2025-01-02T00:00:00Z'']) None) ''1/2/2025, 1:00:00 AM''),
       (1735779603500, ClickReload),
       (1735779604000, QueryDone PlainFetch (QueryResolved (Some
           [exampleRow ''E1'' ''MERN'' ''1.0'' 900 ''2025-01-01T00:30:00Z'',
            exampleRow ''E2'' ''MERN'' ''1.0'' 500 ''2025-01-02T00:00:00Z'']) None) ''1/2/2025, 1:00:04 AM'')]
      mount)) = 2"
  by code_simp

end
